theory Spec2Isabelle
  imports Complex_Main
begin

section \<open>JavaScript numbers\<close>

text \<open>
  The program computes with JavaScript numbers. A finite number is modelled by the real it
  denotes (rounding, overflow and the sign of zero are not modelled): these are the real
  numbers of the specification. The three values that are not finite are kept, because
  the code produces them from finite inputs whenever it divides by zero: \<open>x / 0\<close> is
  \<open>Infinity\<close>, \<open>-Infinity\<close> or \<open>NaN\<close>.
  The operators \<open>+\<close>, \<open>-\<close>, \<open>*\<close>, \<open>/\<close>, \<open>\<le>\<close> and \<open><\<close> on \<open>jsnum\<close> are the
  JavaScript ones: any comparison with \<open>NaN\<close> is false, so \<open>a >= b\<close> of the source is
  written \<open>b \<le> a\<close> and never \<open>\<not> a < b\<close>.
\<close>

datatype jsnum = Fin real | PosInf | NegInf | NaN

instantiation jsnum :: "{uminus,plus,minus,times,inverse,abs,ord}"
begin

fun uminus_jsnum :: "jsnum \<Rightarrow> jsnum" where
  "uminus_jsnum (Fin x) = Fin (- x)"
| "uminus_jsnum PosInf = NegInf"
| "uminus_jsnum NegInf = PosInf"
| "uminus_jsnum NaN = NaN"

fun plus_jsnum :: "jsnum \<Rightarrow> jsnum \<Rightarrow> jsnum" where
  "plus_jsnum (Fin x) (Fin y) = Fin (x + y)"
| "plus_jsnum NaN _ = NaN"
| "plus_jsnum _ NaN = NaN"
| "plus_jsnum PosInf NegInf = NaN"
| "plus_jsnum NegInf PosInf = NaN"
| "plus_jsnum PosInf _ = PosInf"
| "plus_jsnum _ PosInf = PosInf"
| "plus_jsnum NegInf _ = NegInf"
| "plus_jsnum _ NegInf = NegInf"

definition minus_jsnum :: "jsnum \<Rightarrow> jsnum \<Rightarrow> jsnum" where
  "minus_jsnum a b = a + (- b)"

fun times_jsnum :: "jsnum \<Rightarrow> jsnum \<Rightarrow> jsnum" where
  "times_jsnum (Fin x) (Fin y) = Fin (x * y)"
| "times_jsnum NaN _ = NaN"
| "times_jsnum _ NaN = NaN"
| "times_jsnum (Fin x) PosInf = (if x = 0 then NaN else if 0 < x then PosInf else NegInf)"
| "times_jsnum (Fin x) NegInf = (if x = 0 then NaN else if 0 < x then NegInf else PosInf)"
| "times_jsnum PosInf (Fin y) = (if y = 0 then NaN else if 0 < y then PosInf else NegInf)"
| "times_jsnum NegInf (Fin y) = (if y = 0 then NaN else if 0 < y then NegInf else PosInf)"
| "times_jsnum PosInf PosInf = PosInf"
| "times_jsnum PosInf NegInf = NegInf"
| "times_jsnum NegInf PosInf = NegInf"
| "times_jsnum NegInf NegInf = PosInf"

fun divide_jsnum :: "jsnum \<Rightarrow> jsnum \<Rightarrow> jsnum" where
  "divide_jsnum (Fin x) (Fin y) =
     (if y = 0 then (if x = 0 then NaN else if 0 < x then PosInf else NegInf)
      else Fin (x / y))"
| "divide_jsnum NaN _ = NaN"
| "divide_jsnum _ NaN = NaN"
| "divide_jsnum (Fin x) _ = Fin 0"
| "divide_jsnum PosInf (Fin y) = (if 0 \<le> y then PosInf else NegInf)"
| "divide_jsnum NegInf (Fin y) = (if 0 \<le> y then NegInf else PosInf)"
| "divide_jsnum _ _ = NaN"

definition inverse_jsnum :: "jsnum \<Rightarrow> jsnum" where
  "inverse_jsnum a = divide (Fin 1) a"

fun abs_jsnum :: "jsnum \<Rightarrow> jsnum" where
  "abs_jsnum (Fin x) = Fin \<bar>x\<bar>"
| "abs_jsnum NaN = NaN"
| "abs_jsnum _ = PosInf"

fun less_eq_jsnum :: "jsnum \<Rightarrow> jsnum \<Rightarrow> bool" where
  "less_eq_jsnum (Fin x) (Fin y) = (x \<le> y)"
| "less_eq_jsnum NaN _ = False"
| "less_eq_jsnum _ NaN = False"
| "less_eq_jsnum NegInf _ = True"
| "less_eq_jsnum _ PosInf = True"
| "less_eq_jsnum _ _ = False"

fun less_jsnum :: "jsnum \<Rightarrow> jsnum \<Rightarrow> bool" where
  "less_jsnum (Fin x) (Fin y) = (x < y)"
| "less_jsnum NaN _ = False"
| "less_jsnum _ NaN = False"
| "less_jsnum PosInf _ = False"
| "less_jsnum _ NegInf = False"
| "less_jsnum _ _ = True"

instance ..

end

text \<open>\<open>Math.min\<close> and \<open>Math.max\<close> return \<open>NaN\<close> as soon as one argument is \<open>NaN\<close>.\<close>

fun Math_min :: "jsnum \<Rightarrow> jsnum \<Rightarrow> jsnum" where
  "Math_min (Fin x) (Fin y) = Fin (min x y)"
| "Math_min NaN _ = NaN"
| "Math_min _ NaN = NaN"
| "Math_min NegInf _ = NegInf"
| "Math_min _ NegInf = NegInf"
| "Math_min PosInf y = y"
| "Math_min x PosInf = x"

fun Math_max :: "jsnum \<Rightarrow> jsnum \<Rightarrow> jsnum" where
  "Math_max (Fin x) (Fin y) = Fin (max x y)"
| "Math_max NaN _ = NaN"
| "Math_max _ NaN = NaN"
| "Math_max PosInf _ = PosInf"
| "Math_max _ PosInf = PosInf"
| "Math_max NegInf y = y"
| "Math_max x NegInf = x"

text \<open>\<open>Math.round\<close> rounds a half towards \<open>+Infinity\<close>; \<open>Math.floor\<close> rounds down.\<close>

fun Math_round :: "jsnum \<Rightarrow> jsnum" where
  "Math_round (Fin x) = Fin (of_int \<lfloor>x + 1 / 2\<rfloor>)"
| "Math_round n = n"

fun Math_floor :: "jsnum \<Rightarrow> jsnum" where
  "Math_floor (Fin x) = Fin (of_int \<lfloor>x\<rfloor>)"
| "Math_floor n = n"

fun Math_sqrt :: "jsnum \<Rightarrow> jsnum" where
  "Math_sqrt (Fin x) = (if x < 0 then NaN else Fin (sqrt x))"
| "Math_sqrt PosInf = PosInf"
| "Math_sqrt n = NaN"

text \<open>A number used as a condition is false when it is zero or \<open>NaN\<close>.\<close>

fun truthy :: "jsnum \<Rightarrow> bool" where
  "truthy (Fin x) = (x \<noteq> 0)"
| "truthy NaN = False"
| "truthy n = True"

fun is_finite :: "jsnum \<Rightarrow> bool" where
  "is_finite (Fin x) = True"
| "is_finite n = False"

text \<open>The number of a \<open>Date\<close> (\<open>getTime()\<close>, milliseconds) is an integer.\<close>

definition getTime :: "int \<Rightarrow> jsnum" where
  "getTime t = Fin (of_int t)"

section \<open>Data model\<close>

datatype TradeDirection = Long | Short

datatype PositionStatus = NoneStatus | Enter | Position | Exit

datatype error = Error string | AssertionError string | TypeError string | RangeError string

text \<open>A sample \<open>{time, value}\<close> of a recorded series.\<close>

type_synonym ITimestampedValue = "int \<times> jsnum"

record IBar =
  time :: int
  "open" :: jsnum
  high :: jsnum
  low :: jsnum
  close :: jsnum

record IPosition =
  direction :: TradeDirection
  entryTime :: int
  entryPrice :: jsnum
  growth :: jsnum
  profit :: jsnum
  profitPct :: jsnum
  holdingPeriod :: nat
  curRateOfReturn :: jsnum
  runUp :: jsnum
  initialStopPrice :: "jsnum option"
  curStopPrice :: "jsnum option"
  initialUnitRisk :: "jsnum option"
  initialRiskPct :: "jsnum option"
  curRiskPct :: "jsnum option"
  curRMultiple :: "jsnum option"
  profitTarget :: "jsnum option"
  riskSeries :: "ITimestampedValue list option"
  stopPriceSeries :: "ITimestampedValue list option"
  rateOfReturnSeries :: "ITimestampedValue list option"

text \<open>
  The fields of a trade carry the source's names with the suffix \<open>_t\<close>, since a position
  has fields of the same names.
\<close>

record ITrade =
  direction_t :: TradeDirection
  entryTime_t :: int
  entryPrice_t :: jsnum
  exitTime_t :: int
  exitPrice_t :: jsnum
  profit_t :: jsnum
  profitPct_t :: jsnum
  growth_t :: jsnum
  riskPct_t :: "jsnum option"
  riskSeries_t :: "ITimestampedValue list option"
  rateOfReturnSeries_t :: "ITimestampedValue list option"
  rmultiple_t :: "jsnum option"
  holdingPeriod_t :: nat
  exitReason_t :: string
  stopPrice_t :: "jsnum option"
  stopPriceSeries_t :: "ITimestampedValue list option"
  profitTarget_t :: "jsnum option"
  runUp_t :: jsnum

record IBacktestOptions =
  recordStopPrice :: bool
  recordRisk :: bool
  recordRateOfReturn :: bool

text \<open>
  A strategy is a record of callbacks. Each callback is a function of the arguments the
  source hands to it (the parameters, the open position, the bar and the lookback window;
  the \<open>entryPrice\<close> of the argument object is the entry price of that position). The
  handle given to \<open>entryRule\<close> and \<open>exitRule\<close> is modelled by what the rule does with
  it: the list of calls it makes, in order, each with the arguments of the call. A callback
  reads its arguments and does not write to them. Bars may carry more columns (\<open>'x\<close>);
  the input series and the indicator series have the same type here.
\<close>

type_synonym IEnterPositionOptions = "TradeDirection option"

record ('p, 'x) IStrategy =
  parameters :: 'p
  lookbackPeriod :: "nat option"
  prepIndicators :: "('p \<Rightarrow> 'x IBar_scheme list \<Rightarrow> 'x IBar_scheme list) option"
  entryRule :: "'p \<Rightarrow> 'x IBar_scheme \<Rightarrow> 'x IBar_scheme list \<Rightarrow> IEnterPositionOptions option list"
  exitRule :: "('p \<Rightarrow> IPosition \<Rightarrow> 'x IBar_scheme \<Rightarrow> 'x IBar_scheme list
                 \<Rightarrow> (jsnum option \<times> string option) list) option"
  stopLoss :: "('p \<Rightarrow> IPosition \<Rightarrow> 'x IBar_scheme \<Rightarrow> 'x IBar_scheme list \<Rightarrow> jsnum) option"
  trailingStopLoss :: "('p \<Rightarrow> IPosition \<Rightarrow> 'x IBar_scheme \<Rightarrow> 'x IBar_scheme list \<Rightarrow> jsnum) option"
  profitTargetRule :: "('p \<Rightarrow> IPosition \<Rightarrow> 'x IBar_scheme \<Rightarrow> 'x IBar_scheme list \<Rightarrow> jsnum) option"
  fees :: "jsnum option"

section \<open>The lookback buffer\<close>

text \<open>
  \<open>CBuffer\<close> is a library the source requires: a ring of fixed size whose \<open>push\<close> writes
  after the last written slot and overwrites the oldest element when the ring is full.
  The source hands \<open>lookbackBuffer.data\<close>, the slots in storage order, to the callbacks;
  it does so only once \<open>length\<close> has reached the size, when no slot is empty.
\<close>

record 'b CBuffer =
  cb_size :: nat
  cb_data :: "'b option list"
  cb_start :: nat
  cb_end :: nat
  cb_length :: nat

definition new_CBuffer :: "nat \<Rightarrow> 'b CBuffer" where
  "new_CBuffer n =
     \<lparr> cb_size = n, cb_data = replicate n None, cb_start = 0, cb_end = n - 1, cb_length = 0 \<rparr>"

definition cb_push :: "'b CBuffer \<Rightarrow> 'b \<Rightarrow> 'b CBuffer" where
  "cb_push b x =
     (let d = (cb_data b)[(cb_end b + 1) mod cb_size b := Some x];
          l = (if cb_length b < cb_size b then cb_length b + 1 else cb_length b);
          e = (cb_end b + 1) mod cb_size b
      in b\<lparr> cb_data := d, cb_length := l, cb_end := e,
             cb_start := (cb_size b + e + 1 - l) mod cb_size b \<rparr>)"

definition lookback_data :: "'b CBuffer \<Rightarrow> 'b list" where
  "lookback_data b = List.map_filter id (cb_data b)"

section \<open>The simulator\<close>

subsection \<open>Updating and closing a position\<close>

definition updatePosition :: "IPosition \<Rightarrow> 'x IBar_scheme \<Rightarrow> IPosition" where
  "updatePosition position bar =
     (let price = open bar;
          lastGrowth = growth position;
          p1 = position\<lparr> profit := (if direction position = Long then price - entryPrice position
                                         else entryPrice position - price) \<rparr>;
          p2 = p1\<lparr> profitPct := (profit p1 / entryPrice p1) * Fin 100 \<rparr>;
          p3 = p2\<lparr> growth := (if direction p2 = Long then price / entryPrice p2
                                  else (entryPrice p2 * Fin 2 - price) / entryPrice p2) \<rparr>;
          p4 = (case curStopPrice p3 of
                  None \<Rightarrow> p3
                | Some stop \<Rightarrow>
                    (let unitRisk = (if direction p3 = Long then price - stop else stop - price)
                     in p3\<lparr> curRiskPct := Some ((unitRisk / price) * Fin 100),
                            curRMultiple := Some (profit p3 / unitRisk) \<rparr>));
          p5 = p4\<lparr> holdingPeriod := holdingPeriod p4 + 1 \<rparr>
      in p5\<lparr> curRateOfReturn := growth p5 / lastGrowth - Fin 1 \<rparr>)"

text \<open>
  \<open>finalizePosition\<close> updates the position it is given and returns the trade. Both of its
  callers drop the position afterwards, and the series of the trade are the arrays of the
  position, which nothing writes to after the call; so the model returns the trade only.
\<close>

definition finalizePosition :: "IPosition \<Rightarrow> int \<Rightarrow> jsnum \<Rightarrow> string \<Rightarrow> jsnum \<Rightarrow> ITrade" where
  "finalizePosition position exitTime exitPrice exitReason fees' =
     (let profit' = (if direction position = Long then exitPrice - entryPrice position
                     else entryPrice position - exitPrice);
          rmultiple = (case initialUnitRisk position of
                         None \<Rightarrow> None
                       | Some risk \<Rightarrow> Some (profit' / risk));
          lastGrowth = growth position;
          growth' = (if direction position = Long then exitPrice / entryPrice position
                     else (entryPrice position * Fin 2 - exitPrice) / entryPrice position);
          p1 = position\<lparr> growth := growth' - growth' * fees' \<rparr>;
          p2 = p1\<lparr> holdingPeriod := holdingPeriod p1 + 1 \<rparr>;
          p3 = p2\<lparr> curRateOfReturn := growth p2 / lastGrowth - Fin 1 \<rparr>;
          p4 = (case rateOfReturnSeries p3 of
                  None \<Rightarrow> p3
                | Some series \<Rightarrow>
                    p3\<lparr> rateOfReturnSeries := Some (series @ [(exitTime, curRateOfReturn p3)]) \<rparr>)
      in \<lparr> direction_t = direction p4,
           entryTime_t = entryTime p4,
           entryPrice_t = entryPrice p4,
           exitTime_t = exitTime,
           exitPrice_t = exitPrice,
           profit_t = profit',
           profitPct_t = (profit' / entryPrice p4) * Fin 100,
           growth_t = growth p4,
           riskPct_t = initialRiskPct p4,
           riskSeries_t = riskSeries p4,
           rateOfReturnSeries_t = rateOfReturnSeries p4,
           rmultiple_t = rmultiple,
           holdingPeriod_t = holdingPeriod p4,
           exitReason_t = exitReason,
           stopPrice_t = curStopPrice p4,
           stopPriceSeries_t = stopPriceSeries p4,
           profitTarget_t = profitTarget p4,
           runUp_t = runUp p4 \<rparr>)"

subsection \<open>The state of a run\<close>

text \<open>The variables that the loop of \<open>backtest\<close> and its local functions share.\<close>

record 'x BacktestState =
  completedTrades :: "ITrade list"
  positionStatus :: PositionStatus
  exitPrice :: "jsnum option"
  exitReason :: "string option"
  positionDirection :: TradeDirection
  openPosition :: "IPosition option"
  lookbackBuffer :: "'x IBar_scheme CBuffer"

definition enterPosition :: "'x BacktestState \<Rightarrow> IEnterPositionOptions option
    \<Rightarrow> error + 'x BacktestState" where
  "enterPosition st options =
     (if positionStatus st \<noteq> NoneStatus
      then Inl (AssertionError ''Can only enter a position when not already in one.'')
      else Inr (st\<lparr> positionStatus := Enter,
                     positionDirection := (case options of
                                             Some (Some d) \<Rightarrow> d
                                           | _ \<Rightarrow> Long) \<rparr>))"

definition exitPosition :: "'x BacktestState \<Rightarrow> jsnum option \<Rightarrow> string option
    \<Rightarrow> error + 'x BacktestState" where
  "exitPosition st price reason =
     (if positionStatus st \<noteq> Position
      then Inl (AssertionError ''Can only exit a position when we are in a position.'')
      else Inr (st\<lparr> positionStatus := Exit, exitPrice := price, exitReason := reason \<rparr>))"

text \<open>The calls a rule makes on its handle, one after the other; a failed assertion ends the run.\<close>

fun enterCalls :: "'x BacktestState \<Rightarrow> IEnterPositionOptions option list
    \<Rightarrow> error + 'x BacktestState" where
  "enterCalls st [] = Inr st"
| "enterCalls st (c # cs) =
     (case enterPosition st c of Inl e \<Rightarrow> Inl e | Inr st' \<Rightarrow> enterCalls st' cs)"

fun exitCalls :: "'x BacktestState \<Rightarrow> (jsnum option \<times> string option) list
    \<Rightarrow> error + 'x BacktestState" where
  "exitCalls st [] = Inr st"
| "exitCalls st (c # cs) =
     (case exitPosition st (fst c) (snd c) of Inl e \<Rightarrow> Inl e | Inr st' \<Rightarrow> exitCalls st' cs)"

text \<open>\<open>closePosition\<close> runs in the case \<open>Exit\<close> only, after the check that a position is open.\<close>

definition closePosition :: "jsnum \<Rightarrow> 'x BacktestState \<Rightarrow> 'x IBar_scheme \<Rightarrow> jsnum \<Rightarrow> string
    \<Rightarrow> 'x BacktestState" where
  "closePosition fees' st bar price reason =
     (let trade = finalizePosition (the (openPosition st)) (time bar) price reason fees'
      in st\<lparr> completedTrades := completedTrades st @ [trade],
             openPosition := None,
             positionStatus := NoneStatus,
             exitPrice := None,
             exitReason := None \<rparr>)"

subsection \<open>The intrabar exit check\<close>

text \<open>
  The source returns from \<open>exitOnCondition\<close> after the first call of \<open>exitPosition\<close>; the
  chain of conditions below has one branch for each of its \<open>return\<close>s, in the order of the
  source, and the exit rule as its last branch.
\<close>

definition exitOnCondition :: "('p, 'x) IStrategy \<Rightarrow> 'x BacktestState \<Rightarrow> 'x IBar_scheme
    \<Rightarrow> error + 'x BacktestState" where
  "exitOnCondition strategy st bar =
     (case openPosition st of
        None \<Rightarrow> Inl (AssertionError ''Expected open position to already be initialised!'')
      | Some p \<Rightarrow>
          if curStopPrice p \<noteq> None \<and> direction p = Long \<and> low bar \<le> the (curStopPrice p)
          then exitPosition st (Some (Math_min (the (curStopPrice p)) (open bar)))
                 (Some ''stop-loss'')
          else if curStopPrice p \<noteq> None \<and> direction p \<noteq> Long
                  \<and> the (curStopPrice p) \<le> high bar
          then exitPosition st (Some (Math_max (the (curStopPrice p)) (open bar)))
                 (Some ''stop-loss'')
          else if profitTarget p \<noteq> None \<and> direction p = Long
                  \<and> the (profitTarget p) \<le> high bar
          then exitPosition st (Some (the (profitTarget p))) (Some ''profit-target'')
          else if profitTarget p \<noteq> None \<and> direction p \<noteq> Long
                  \<and> low bar \<le> the (profitTarget p)
          then exitPosition st (Some (the (profitTarget p))) (Some ''profit-target'')
          else (case exitRule strategy of
                  None \<Rightarrow> Inr st
                | Some rule \<Rightarrow>
                    exitCalls st (rule (parameters strategy) p bar
                                    (lookback_data (lookbackBuffer st)))))"

subsection \<open>One bar of the main loop\<close>

text \<open>
  The \<open>switch\<close> on the position status has four cases, one definition each. The cases
  \<open>Enter\<close> and \<open>Position\<close> are sequences of blocks; each block of the source is a
  definition of its own, in the order of the source.
\<close>

definition caseNone :: "('p, 'x) IStrategy \<Rightarrow> 'x BacktestState \<Rightarrow> 'x IBar_scheme
    \<Rightarrow> error + 'x BacktestState" where
  "caseNone strategy st bar =
     enterCalls st (entryRule strategy (parameters strategy) bar
                      (lookback_data (lookbackBuffer st)))"

text \<open>The position as the case \<open>Enter\<close> creates it.\<close>

definition newPosition :: "TradeDirection \<Rightarrow> 'x IBar_scheme \<Rightarrow> IPosition" where
  "newPosition d bar =
     \<lparr> direction = d, entryTime = time bar, entryPrice = open bar,
       growth = Fin 1, profit = Fin 0, profitPct = Fin 0, holdingPeriod = 0,
       curRateOfReturn = Fin 0, runUp = Fin 0,
       initialStopPrice = None, curStopPrice = None, initialUnitRisk = None,
       initialRiskPct = None, curRiskPct = None, curRMultiple = None, profitTarget = None,
       riskSeries = None, stopPriceSeries = None, rateOfReturnSeries = None \<rparr>"

text \<open>\<open>if (strategy.stopLoss)\<close>: the initial stop, at the stop distance from the entry price.\<close>

definition enterStopLoss :: "('p, 'x) IStrategy \<Rightarrow> IPosition \<Rightarrow> 'x IBar_scheme
    \<Rightarrow> 'x IBar_scheme list \<Rightarrow> IPosition" where
  "enterStopLoss strategy p bar lookback =
     (case stopLoss strategy of
        None \<Rightarrow> p
      | Some f \<Rightarrow>
          (let initialStopDistance = f (parameters strategy) p bar lookback;
               stop = (if direction p = Long then open bar - initialStopDistance
                       else open bar + initialStopDistance)
           in p\<lparr> initialStopPrice := Some stop, curStopPrice := Some stop \<rparr>))"

text \<open>\<open>if (openPosition.curStopPrice !== undefined)\<close>: the initial risk and its series.\<close>

definition enterRisk :: "IBacktestOptions \<Rightarrow> IPosition \<Rightarrow> 'x IBar_scheme \<Rightarrow> IPosition" where
  "enterRisk options p bar =
     (case curStopPrice p of
        None \<Rightarrow> p
      | Some stop \<Rightarrow>
          (let risk = (if direction p = Long then open bar - stop else stop - open bar);
               riskPct = (risk / open bar) * Fin 100;
               q = p\<lparr> initialUnitRisk := Some risk,
                      initialRiskPct := Some riskPct,
                      curRiskPct := Some riskPct,
                      curRMultiple := Some (Fin 0) \<rparr>
           in if recordRisk options
              then q\<lparr> riskSeries := Some [(time bar, riskPct)] \<rparr>
              else q))"

text \<open>\<open>if (options.recordRateOfReturn)\<close>: the series starts empty.\<close>

definition enterRateOfReturn :: "IBacktestOptions \<Rightarrow> IPosition \<Rightarrow> IPosition" where
  "enterRateOfReturn options p =
     (if recordRateOfReturn options then p\<lparr> rateOfReturnSeries := Some [] \<rparr> else p)"

text \<open>\<open>if (strategy.profitTarget)\<close>: the target, at the profit distance from the entry price.\<close>

definition enterProfitTarget :: "('p, 'x) IStrategy \<Rightarrow> IPosition \<Rightarrow> 'x IBar_scheme
    \<Rightarrow> 'x IBar_scheme list \<Rightarrow> IPosition" where
  "enterProfitTarget strategy p bar lookback =
     (case profitTargetRule strategy of
        None \<Rightarrow> p
      | Some f \<Rightarrow>
          (let profitDistance = f (parameters strategy) p bar lookback
           in p\<lparr> profitTarget := Some (if direction p = Long then open bar + profitDistance
                                        else open bar - profitDistance) \<rparr>))"

text \<open>
  \<open>if (strategy.trailingStopLoss)\<close> of the case \<open>Enter\<close>: the trailing stop at the close
  of the entry bar replaces the initial stop when it is tighter.
\<close>

definition enterTrailingStop :: "('p, 'x) IStrategy \<Rightarrow> IBacktestOptions \<Rightarrow> IPosition
    \<Rightarrow> 'x IBar_scheme \<Rightarrow> 'x IBar_scheme list \<Rightarrow> IPosition" where
  "enterTrailingStop strategy options p bar lookback =
     (case trailingStopLoss strategy of
        None \<Rightarrow> p
      | Some f \<Rightarrow>
          (let trailingStopDistance = f (parameters strategy) p bar lookback;
               trailingStopPrice = (if direction p = Long then close bar - trailingStopDistance
                                    else close bar + trailingStopDistance);
               q = (case initialStopPrice p of
                      None \<Rightarrow> p\<lparr> curStopPrice := Some trailingStopPrice \<rparr>
                    | Some initial \<Rightarrow>
                        (let stop = (if direction p = Long
                                     then Math_max initial trailingStopPrice
                                     else Math_min initial trailingStopPrice)
                         in p\<lparr> initialStopPrice := Some stop, curStopPrice := Some stop \<rparr>))
           in if recordStopPrice options
              then q\<lparr> stopPriceSeries := Some [(time bar, the (curStopPrice q))] \<rparr>
              else q))"

text \<open>The run-up, at the end of the cases \<open>Enter\<close> and \<open>Position\<close>.\<close>

definition updateRunUp :: "IPosition \<Rightarrow> 'x IBar_scheme \<Rightarrow> IPosition" where
  "updateRunUp p bar =
     (if direction p = Long
      then p\<lparr> runUp := (if runUp p < high bar - entryPrice p
                         then high bar - entryPrice p else runUp p) \<rparr>
      else p\<lparr> runUp := (if runUp p < entryPrice p - low bar
                         then entryPrice p - low bar else runUp p) \<rparr>)"

definition caseEnter :: "('p, 'x) IStrategy \<Rightarrow> IBacktestOptions \<Rightarrow> 'x BacktestState
    \<Rightarrow> 'x IBar_scheme \<Rightarrow> error + 'x BacktestState" where
  "caseEnter strategy options st bar =
     (if openPosition st \<noteq> None
      then Inl (AssertionError ''Expected there to be no open position initialised yet!'')
      else
        let lookback = lookback_data (lookbackBuffer st);
            p0 = newPosition (positionDirection st) bar;
            p1 = enterStopLoss strategy p0 bar lookback;
            p2 = enterRisk options p1 bar;
            p3 = enterRateOfReturn options p2;
            p4 = enterProfitTarget strategy p3 bar lookback;
            st1 = st\<lparr> openPosition := Some p4, positionStatus := Position \<rparr>
        in (case exitOnCondition strategy st1 bar of
              Inl e \<Rightarrow> Inl e
            | Inr st2 \<Rightarrow>
                (let p5 = enterTrailingStop strategy options p4 bar lookback
                 in Inr (st2\<lparr> openPosition := Some (updateRunUp p5 bar) \<rparr>))))"

text \<open>
  The blocks of the case \<open>Position\<close>. A \<open>push\<close> on a series that was never created
  throws.
\<close>

definition recordRiskSample :: "IBacktestOptions \<Rightarrow> IPosition \<Rightarrow> 'x IBar_scheme
    \<Rightarrow> error + IPosition" where
  "recordRiskSample options p bar =
     (if curRiskPct p \<noteq> None \<and> recordRisk options
      then (case riskSeries p of
              None \<Rightarrow> Inl (TypeError ''riskSeries is undefined'')
            | Some series \<Rightarrow>
                Inr (p\<lparr> riskSeries := Some (series @ [(time bar, the (curRiskPct p))]) \<rparr>))
      else Inr p)"

definition recordRateOfReturnSample :: "IBacktestOptions \<Rightarrow> IPosition \<Rightarrow> 'x IBar_scheme
    \<Rightarrow> error + IPosition" where
  "recordRateOfReturnSample options p bar =
     (if recordRateOfReturn options
      then (case rateOfReturnSeries p of
              None \<Rightarrow> Inl (TypeError ''rateOfReturnSeries is undefined'')
            | Some series \<Rightarrow>
                Inr (p\<lparr> rateOfReturnSeries := Some (series @ [(time bar, curRateOfReturn p)]) \<rparr>))
      else Inr p)"

text \<open>
  \<open>if (strategy.trailingStopLoss !== undefined)\<close> of the case \<open>Position\<close>. In the
  condition \<open>initialStopPrice ? \<dots> : \<dots>\<close> an initial stop price that is zero or \<open>NaN\<close>
  counts as absent.
\<close>

definition revaluateTrailingStop :: "('p, 'x) IStrategy \<Rightarrow> IBacktestOptions \<Rightarrow> IPosition
    \<Rightarrow> 'x IBar_scheme \<Rightarrow> 'x IBar_scheme list \<Rightarrow> error + IPosition" where
  "revaluateTrailingStop strategy options p bar lookback =
     (case trailingStopLoss strategy of
        None \<Rightarrow> Inr p
      | Some f \<Rightarrow>
          (let trailingStopDistance = f (parameters strategy) p bar lookback;
               newTrailingStopPrice = (if direction p = Long then close bar - trailingStopDistance
                                       else close bar + trailingStopDistance);
               stop = (case initialStopPrice p of
                         None \<Rightarrow> newTrailingStopPrice
                       | Some initial \<Rightarrow>
                           if truthy initial
                           then (if direction p = Long
                                 then Math_max initial newTrailingStopPrice
                                 else Math_min initial newTrailingStopPrice)
                           else newTrailingStopPrice);
               q = p\<lparr> curStopPrice := Some stop \<rparr>
           in if recordStopPrice options
              then (case stopPriceSeries q of
                      None \<Rightarrow> Inl (TypeError ''stopPriceSeries is undefined'')
                    | Some series \<Rightarrow>
                        Inr (q\<lparr> stopPriceSeries := Some (series @ [(time bar, stop)]) \<rparr>))
              else Inr q))"

definition casePosition :: "('p, 'x) IStrategy \<Rightarrow> IBacktestOptions \<Rightarrow> 'x BacktestState
    \<Rightarrow> 'x IBar_scheme \<Rightarrow> error + 'x BacktestState" where
  "casePosition strategy options st bar =
     (case openPosition st of
        None \<Rightarrow> Inl (AssertionError ''Expected open position to already be initialised!'')
      | Some p \<Rightarrow>
          (case recordRiskSample options (updatePosition p bar) bar of
             Inl e \<Rightarrow> Inl e
           | Inr p2 \<Rightarrow>
               (case recordRateOfReturnSample options p2 bar of
                  Inl e \<Rightarrow> Inl e
                | Inr p3 \<Rightarrow>
                    (case exitOnCondition strategy (st\<lparr> openPosition := Some p3 \<rparr>) bar of
                       Inl e \<Rightarrow> Inl e
                     | Inr st2 \<Rightarrow>
                         (case revaluateTrailingStop strategy options p3 bar
                                 (lookback_data (lookbackBuffer st)) of
                            Inl e \<Rightarrow> Inl e
                          | Inr p5 \<Rightarrow>
                              Inr (st2\<lparr> openPosition := Some (updateRunUp p5 bar) \<rparr>))))))"

definition caseExit :: "jsnum \<Rightarrow> 'x BacktestState \<Rightarrow> 'x IBar_scheme \<Rightarrow> error + 'x BacktestState" where
  "caseExit fees' st bar =
     (if openPosition st = None
      then Inl (AssertionError ''Expected open position to already be initialised!'')
      else Inr (closePosition fees' st bar
                  (case exitPrice st of None \<Rightarrow> open bar | Some price \<Rightarrow> price)
                  (case exitReason st of None \<Rightarrow> ''exit-rule'' | Some reason \<Rightarrow> reason)))"

text \<open>
  The body of the \<open>for\<close> loop: the bar goes into the lookback buffer, and no rule runs
  before the buffer holds \<open>lookbackPeriod\<close> bars.
\<close>

definition backtestBar :: "('p, 'x) IStrategy \<Rightarrow> IBacktestOptions \<Rightarrow> jsnum \<Rightarrow> nat
    \<Rightarrow> 'x BacktestState \<Rightarrow> 'x IBar_scheme \<Rightarrow> error + 'x BacktestState" where
  "backtestBar strategy options fees' lookbackPeriod' st bar =
     (let st1 = st\<lparr> lookbackBuffer := cb_push (lookbackBuffer st) bar \<rparr>
      in if cb_length (lookbackBuffer st1) < lookbackPeriod' then Inr st1
         else (case positionStatus st1 of
                 NoneStatus \<Rightarrow> caseNone strategy st1 bar
               | Enter \<Rightarrow> caseEnter strategy options st1 bar
               | Position \<Rightarrow> casePosition strategy options st1 bar
               | Exit \<Rightarrow> caseExit fees' st1 bar))"

fun backtestLoop :: "('p, 'x) IStrategy \<Rightarrow> IBacktestOptions \<Rightarrow> jsnum \<Rightarrow> nat
    \<Rightarrow> 'x BacktestState \<Rightarrow> 'x IBar_scheme list \<Rightarrow> error + 'x BacktestState" where
  "backtestLoop strategy options fees' lookbackPeriod' st [] = Inr st"
| "backtestLoop strategy options fees' lookbackPeriod' st (bar # bars) =
     (case backtestBar strategy options fees' lookbackPeriod' st bar of
        Inl e \<Rightarrow> Inl e
      | Inr st' \<Rightarrow> backtestLoop strategy options fees' lookbackPeriod' st' bars)"

subsection \<open>The function \<open>backtest\<close>\<close>

definition theLookbackPeriod :: "('p, 'x) IStrategy \<Rightarrow> nat" where
  "theLookbackPeriod strategy =
     (case lookbackPeriod strategy of None \<Rightarrow> 1 | Some n \<Rightarrow> if n = 0 then 1 else n)"

definition theFees :: "('p, 'x) IStrategy \<Rightarrow> jsnum" where
  "theFees strategy =
     (case fees strategy of None \<Rightarrow> Fin 0 | Some f \<Rightarrow> if truthy f then f else Fin 0)"

definition theOptions :: "IBacktestOptions option \<Rightarrow> IBacktestOptions" where
  "theOptions options =
     (case options of
        None \<Rightarrow> \<lparr> recordStopPrice = False, recordRisk = False, recordRateOfReturn = False \<rparr>
      | Some opts \<Rightarrow> opts)"

text \<open>
  The time frame is \<open>Math.round\<close> of the time between the first and the last bar of the
  input series over the number of bars; the series is not empty where it is computed, so
  the quotient is finite and the result an integer number of milliseconds.
\<close>

definition theTimeframe :: "'x IBar_scheme list \<Rightarrow> int" where
  "theTimeframe inputSeries =
     \<lfloor>real_of_int (time (last inputSeries) - time (hd inputSeries))
        / real (length inputSeries) + 1 / 2\<rfloor>"

definition theIndicators :: "('p, 'x) IStrategy \<Rightarrow> 'x IBar_scheme list \<Rightarrow> 'x IBar_scheme list" where
  "theIndicators strategy inputSeries =
     (case prepIndicators strategy of
        None \<Rightarrow> inputSeries
      | Some f \<Rightarrow> f (parameters strategy) inputSeries)"

definition initialState :: "nat \<Rightarrow> 'x BacktestState" where
  "initialState lookbackPeriod' =
     \<lparr> completedTrades = [], positionStatus = NoneStatus, exitPrice = None,
       exitReason = None, positionDirection = Long, openPosition = None,
       lookbackBuffer = new_CBuffer lookbackPeriod' \<rparr>"

text \<open>The state in which the \<open>for\<close> loop leaves the run, for a valid input.\<close>

definition runBars :: "('p, 'x) IStrategy \<Rightarrow> 'x IBar_scheme list \<Rightarrow> IBacktestOptions option
    \<Rightarrow> error + 'x BacktestState" where
  "runBars strategy inputSeries options =
     backtestLoop strategy (theOptions options) (theFees strategy) (theLookbackPeriod strategy)
       (initialState (theLookbackPeriod strategy)) (theIndicators strategy inputSeries)"

definition backtest :: "('p, 'x) IStrategy \<Rightarrow> 'x IBar_scheme list \<Rightarrow> IBacktestOptions option
    \<Rightarrow> error + ITrade list" where
  "backtest strategy inputSeries options =
     (if inputSeries = []
      then Inl (Error ''Expect input data series to contain at last 1 bar.'')
      else if length inputSeries < theLookbackPeriod strategy
      then Inl (Error ''You have less input data than your lookback period'')
      else
        (case runBars strategy inputSeries options of
           Inl e \<Rightarrow> Inl e
         | Inr st \<Rightarrow>
             (case openPosition st of
                None \<Rightarrow> Inr (completedTrades st)
              | Some p \<Rightarrow>
                  (let lastBar = last (theIndicators strategy inputSeries);
                       lastTrade = finalizePosition p (time lastBar + theTimeframe inputSeries)
                                     (close lastBar) ''finalize'' (theFees strategy)
                   in Inr (completedTrades st @ [lastTrade])))))"

section \<open>The analyzer\<close>

record IAnalyzeOptions =
  startingDate :: "int option"
  endingDate :: "int option"
  timeframe :: "jsnum option"

text \<open>The fields of the analysis carry the source's names with the suffix \<open>_a\<close>.\<close>

record IAnalysis =
  startingCapital_a :: jsnum
  finalCapital_a :: jsnum
  profit_a :: jsnum
  profitPct_a :: jsnum
  growth_a :: jsnum
  totalTrades_a :: nat
  barCount_a :: nat
  maxDrawdown_a :: jsnum
  maxDrawdownPct_a :: jsnum
  maxRiskPct_a :: "jsnum option"
  expectency_a :: "jsnum option"
  rmultipleStdDev_a :: "jsnum option"
  sharpeRatio_a :: jsnum
  systemQuality_a :: "jsnum option"
  profitFactor_a :: "jsnum option"
  proportionProfitable_a :: jsnum
  percentProfitable_a :: jsnum
  returnOnAccount_a :: jsnum
  averageProfitPerTrade_a :: jsnum
  numWinningTrades_a :: nat
  numLosingTrades_a :: nat
  averageWinningTrade_a :: jsnum
  averageLosingTrade_a :: jsnum
  expectedValue_a :: jsnum

text \<open>
  What \<open>analyze\<close> calls and the source file does not define is a parameter of the model:
  \<open>isNumber\<close> of the module \<open>./utils\<close>, which decides with the comparison whether the
  starting capital is accepted, and the statistics of the libraries (\<open>average\<close> and
  \<open>std\<close> of a data-forge \<open>Series\<close>, \<open>std\<close> of mathjs). An array with holes is a list of
  options.
\<close>

record Libraries =
  isNumber :: "jsnum \<Rightarrow> bool"
  Series_average :: "jsnum option list \<Rightarrow> jsnum"
  Series_std :: "jsnum option list \<Rightarrow> jsnum"
  math_std :: "jsnum list \<Rightarrow> jsnum"

text \<open>The variables of the loop over the trades.\<close>

record AnalyzeState =
  workingCapital :: jsnum
  barCount :: nat
  peakCapital :: jsnum
  workingDrawdown :: jsnum
  maxDrawdown :: jsnum
  maxDrawdownPct :: jsnum
  totalProfits :: jsnum
  totalLosses :: jsnum
  numWinningTrades :: nat
  numLosingTrades :: nat
  totalTrades :: nat
  maxRiskPct :: "jsnum option"
  rateOfReturnList :: "jsnum option list option"

text \<open>
  An assignment \<open>a[i] = v\<close>: an index beyond the end extends the array and leaves holes;
  an index that is no array index (negative, not finite, \<open>2\<^sup>3\<^sup>2 - 1\<close> or more) leaves the
  elements as they are.
\<close>

definition array_set :: "jsnum option list \<Rightarrow> jsnum \<Rightarrow> jsnum \<Rightarrow> jsnum option list" where
  "array_set xs i v =
     (case i of
        Fin r \<Rightarrow>
          if 0 \<le> r \<and> r = of_int \<lfloor>r\<rfloor> \<and> r < 2 ^ 32 - 1
          then (let n = nat \<lfloor>r\<rfloor>
                in if n < length xs then xs[n := Some v]
                   else xs @ replicate (n - length xs) None @ [Some v])
          else xs
      | _ \<Rightarrow> xs)"

fun scatter :: "jsnum \<Rightarrow> int \<Rightarrow> jsnum option list \<Rightarrow> ITimestampedValue list \<Rightarrow> jsnum option list" where
  "scatter timeframe' start xs [] = xs"
| "scatter timeframe' start xs (rateOfReturn # rest) =
     scatter timeframe' start
       (array_set xs (Math_round ((getTime (fst rateOfReturn) - getTime start) / timeframe'))
          (snd rateOfReturn))
       rest"

text \<open>
  One iteration of the loop over the trades. The start date is read only when the list
  of rates of return exists, and then it is set.
\<close>

definition analyzeTrade :: "jsnum \<Rightarrow> int option \<Rightarrow> AnalyzeState \<Rightarrow> ITrade \<Rightarrow> error + AnalyzeState" where
  "analyzeTrade timeframe' start st trade =
     (let s1 = st\<lparr> totalTrades := totalTrades st + 1 \<rparr>;
          s2 = (case riskPct_t trade of
                  None \<Rightarrow> s1
                | Some risk \<Rightarrow>
                    s1\<lparr> maxRiskPct :=
                          Some (Math_max risk
                                  (case maxRiskPct s1 of
                                     None \<Rightarrow> Fin 0
                                   | Some m \<Rightarrow> if truthy m then m else Fin 0)) \<rparr>)
      in if rateOfReturnList s2 \<noteq> None \<and> rateOfReturnSeries_t trade = None
         then Inl (TypeError ''rateOfReturnSeries is not iterable'')
         else
           let s3 = (case rateOfReturnList s2 of
                       None \<Rightarrow> s2
                     | Some xs \<Rightarrow>
                         s2\<lparr> rateOfReturnList :=
                               Some (scatter timeframe' (the start) xs
                                       (the (rateOfReturnSeries_t trade))) \<rparr>);
               s4 = s3\<lparr> workingCapital := workingCapital s3 * growth_t trade \<rparr>;
               s5 = s4\<lparr> barCount := barCount s4 + holdingPeriod_t trade \<rparr>;
               s6 = (if workingCapital s5 < peakCapital s5
                     then s5\<lparr> workingDrawdown := workingCapital s5 - peakCapital s5 \<rparr>
                     else s5\<lparr> peakCapital := workingCapital s5, workingDrawdown := Fin 0 \<rparr>);
               s7 = (if Fin 0 < profit_t trade
                     then s6\<lparr> totalProfits := totalProfits s6 + profit_t trade,
                              numWinningTrades := numWinningTrades s6 + 1 \<rparr>
                     else s6\<lparr> totalLosses := totalLosses s6 + profit_t trade,
                              numLosingTrades := numLosingTrades s6 + 1 \<rparr>);
               s8 = s7\<lparr> maxDrawdown := Math_min (workingDrawdown s7) (maxDrawdown s7) \<rparr>
           in Inr (s8\<lparr> maxDrawdownPct :=
                          Math_min ((maxDrawdown s8 / peakCapital s8) * Fin 100)
                            (maxDrawdownPct s8) \<rparr>))"

fun analyzeLoop :: "jsnum \<Rightarrow> int option \<Rightarrow> AnalyzeState \<Rightarrow> ITrade list \<Rightarrow> error + AnalyzeState" where
  "analyzeLoop timeframe' start st [] = Inr st"
| "analyzeLoop timeframe' start st (trade # trades) =
     (case analyzeTrade timeframe' start st trade of
        Inl e \<Rightarrow> Inl e
      | Inr st' \<Rightarrow> analyzeLoop timeframe' start st' trades)"

text \<open>The time frame: the option, or else what the first trade's series gives.\<close>

definition analyzeTimeframe :: "ITrade list \<Rightarrow> IAnalyzeOptions option \<Rightarrow> jsnum" where
  "analyzeTimeframe trades options =
     (let timeframe0 = (case options of
                          None \<Rightarrow> Fin 0
                        | Some opts \<Rightarrow> (case timeframe opts of None \<Rightarrow> Fin 0 | Some t \<Rightarrow> t))
      in if \<not> truthy timeframe0 \<and> trades \<noteq> [] \<and> rateOfReturnSeries_t (hd trades) \<noteq> None
         then (getTime (exitTime_t (hd trades)) - getTime (entryTime_t (hd trades)))
              / Fin (real (length (the (rateOfReturnSeries_t (hd trades)))))
         else timeframe0)"

text \<open>
  The block that prepares the list of rates of return. It writes \<open>endingDate\<close> into the
  options object of the caller, so it returns the options with its result; \<open>now\<close> is the
  time \<open>new Date()\<close> reads. \<open>Array(n)\<close> throws unless \<open>n\<close> is an array length.
\<close>

definition prepareRateOfReturnList :: "int \<Rightarrow> jsnum \<Rightarrow> IAnalyzeOptions option
    \<Rightarrow> IAnalyzeOptions option \<times> (error + jsnum option list option)" where
  "prepareRateOfReturnList now timeframe' options =
     (case options of
        None \<Rightarrow> (None, Inr None)
      | Some opts \<Rightarrow>
          (case startingDate opts of
             None \<Rightarrow> (Some opts, Inr None)
           | Some start \<Rightarrow>
               if \<not> truthy timeframe' then (Some opts, Inr None)
               else
                 let opts' = (if endingDate opts = None then opts\<lparr> endingDate := Some now \<rparr>
                              else opts);
                     barCountOfDateRange =
                       Math_floor ((getTime (the (endingDate opts')) - getTime start) / timeframe')
                 in (Some opts',
                     (case barCountOfDateRange of
                        Fin n \<Rightarrow>
                          if 0 \<le> n \<and> n \<le> 2 ^ 32 - 1
                          then Inr (Some (replicate (nat \<lfloor>n\<rfloor>) (Some (Fin 0))))
                          else Inl (RangeError ''Invalid array length'')
                      | _ \<Rightarrow> Inl (RangeError ''Invalid array length'')))))"

definition initialAnalyzeState :: "jsnum \<Rightarrow> jsnum option list option \<Rightarrow> AnalyzeState" where
  "initialAnalyzeState startingCapital xs =
     \<lparr> workingCapital = startingCapital, barCount = 0, peakCapital = startingCapital,
       workingDrawdown = Fin 0, maxDrawdown = Fin 0, maxDrawdownPct = Fin 0,
       totalProfits = Fin 0, totalLosses = Fin 0, numWinningTrades = 0,
       numLosingTrades = 0, totalTrades = 0, maxRiskPct = None, rateOfReturnList = xs \<rparr>"

text \<open>What follows the loop: the derived scalars and the analysis.\<close>

definition theAnalysis :: "Libraries \<Rightarrow> jsnum \<Rightarrow> jsnum \<Rightarrow> ITrade list \<Rightarrow> AnalyzeState \<Rightarrow> IAnalysis" where
  "theAnalysis lib timeframe' startingCapital trades st =
     (let rmultiples = List.map_filter rmultiple_t trades;
          expectency = (if rmultiples \<noteq> [] then Some (Series_average lib (map Some rmultiples))
                        else None);
          rmultipleStdDev = (if rmultiples \<noteq> [] then Some (math_std lib rmultiples) else None);
          systemQuality = (case (expectency, rmultipleStdDev) of
                             (Some e, Some d) \<Rightarrow> if d = Fin 0 then None else Some (e / d)
                           | _ \<Rightarrow> None);
          absTotalLosses = \<bar>totalLosses st\<bar>;
          profitFactor = (if Fin 0 < absTotalLosses then Some (totalProfits st / absTotalLosses)
                          else None);
          profit' = workingCapital st - startingCapital;
          profitPct' = (profit' / startingCapital) * Fin 100;
          proportionWinning = (if 0 < totalTrades st
                               then Fin (real (numWinningTrades st)) / Fin (real (totalTrades st))
                               else Fin 0);
          proportionLosing = (if 0 < totalTrades st
                              then Fin (real (numLosingTrades st)) / Fin (real (totalTrades st))
                              else Fin 0);
          averageWinningTrade = (if 0 < numWinningTrades st
                                 then totalProfits st / Fin (real (numWinningTrades st))
                                 else Fin 0);
          averageLosingTrade = (if 0 < numLosingTrades st
                                then totalLosses st / Fin (real (numLosingTrades st))
                                else Fin 0);
          sharpeRatio = (case rateOfReturnList st of
                           None \<Rightarrow> Fin 0
                         | Some xs \<Rightarrow>
                             (Series_average lib xs / Series_std lib xs)
                             * Math_sqrt (Fin (365 * 24 * 60 * 60 * 1000) / timeframe'))
      in \<lparr> startingCapital_a = startingCapital,
           finalCapital_a = workingCapital st,
           profit_a = profit',
           profitPct_a = profitPct',
           growth_a = workingCapital st / startingCapital,
           totalTrades_a = totalTrades st,
           barCount_a = barCount st,
           maxDrawdown_a = maxDrawdown st,
           maxDrawdownPct_a = maxDrawdownPct st,
           maxRiskPct_a = maxRiskPct st,
           expectency_a = expectency,
           rmultipleStdDev_a = rmultipleStdDev,
           sharpeRatio_a = sharpeRatio,
           systemQuality_a = systemQuality,
           profitFactor_a = profitFactor,
           proportionProfitable_a = proportionWinning,
           percentProfitable_a = proportionWinning * Fin 100,
           returnOnAccount_a = profitPct' / \<bar>maxDrawdownPct st\<bar>,
           averageProfitPerTrade_a = profit' / Fin (real (totalTrades st)),
           numWinningTrades_a = numWinningTrades st,
           numLosingTrades_a = numLosingTrades st,
           averageWinningTrade_a = averageWinningTrade,
           averageLosingTrade_a = averageLosingTrade,
           expectedValue_a = proportionWinning * averageWinningTrade
                             + proportionLosing * averageLosingTrade \<rparr>)"

text \<open>
  \<open>analyze\<close> returns the options object as the call leaves it, next to the analysis or the
  error it throws.
\<close>

definition analyze :: "Libraries \<Rightarrow> int \<Rightarrow> jsnum \<Rightarrow> ITrade list \<Rightarrow> IAnalyzeOptions option
    \<Rightarrow> IAnalyzeOptions option \<times> (error + IAnalysis)" where
  "analyze lib now startingCapital trades options =
     (if \<not> isNumber lib startingCapital \<or> startingCapital \<le> Fin 0
      then (options, Inl (Error ''Expected startingCapital to be a positive number''))
      else
        let timeframe' = analyzeTimeframe trades options;
            prepared = prepareRateOfReturnList now timeframe' options;
            options' = fst prepared
        in (case snd prepared of
              Inl e \<Rightarrow> (options', Inl e)
            | Inr xs \<Rightarrow>
                (case analyzeLoop timeframe' (case options' of None \<Rightarrow> None
                                                | Some opts \<Rightarrow> startingDate opts)
                        (initialAnalyzeState startingCapital xs) trades of
                   Inl e \<Rightarrow> (options', Inl e)
                 | Inr st \<Rightarrow>
                     (options', Inr (theAnalysis lib timeframe' startingCapital trades st)))))"

section \<open>Reference definitions\<close>

text \<open>
  The intrabar exit as the specification words it: the stop-loss first, then the profit
  target, each with the price it fills at and its reason; \<open>None\<close> when neither triggers.
\<close>

definition intrabarExit :: "IPosition \<Rightarrow> 'x IBar_scheme \<Rightarrow> (jsnum \<times> string) option" where
  "intrabarExit p bar =
     (let stopLossExit =
            (case curStopPrice p of
               None \<Rightarrow> None
             | Some stop \<Rightarrow>
                 (case direction p of
                    Long \<Rightarrow> if low bar \<le> stop then Some (Math_min stop (open bar)) else None
                  | Short \<Rightarrow> if stop \<le> high bar then Some (Math_max stop (open bar)) else None));
          profitTargetExit =
            (case profitTarget p of
               None \<Rightarrow> None
             | Some target \<Rightarrow>
                 (case direction p of
                    Long \<Rightarrow> if target \<le> high bar then Some target else None
                  | Short \<Rightarrow> if low bar \<le> target then Some target else None))
      in (case stopLossExit of
            Some price \<Rightarrow> Some (price, ''stop-loss'')
          | None \<Rightarrow>
              (case profitTargetExit of
                 Some price \<Rightarrow> Some (price, ''profit-target'')
               | None \<Rightarrow> None)))"

text \<open>A series exists and has \<open>n\<close> samples.\<close>

definition seriesMatches :: "ITimestampedValue list option \<Rightarrow> nat \<Rightarrow> bool" where
  "seriesMatches series n = (case series of None \<Rightarrow> False | Some xs \<Rightarrow> length xs = n)"

text \<open>
  The invariant of the loop when rates of return are recorded: the series of the open
  position and of every completed trade has as many samples as the holding period counts.
\<close>

definition rateOfReturnInv :: "'x BacktestState \<Rightarrow> bool" where
  "rateOfReturnInv st =
     ((case openPosition st of
         None \<Rightarrow> True
       | Some p \<Rightarrow> seriesMatches (rateOfReturnSeries p) (holdingPeriod p))
      \<and> list_all (\<lambda>t. seriesMatches (rateOfReturnSeries_t t) (holdingPeriod_t t))
           (completedTrades st))"

text \<open>A position is open exactly while the status is \<open>Position\<close> or \<open>Exit\<close>.\<close>

definition positionInv :: "'x BacktestState \<Rightarrow> bool" where
  "positionInv st =
     ((openPosition st = None) = (positionStatus st = NoneStatus \<or> positionStatus st = Enter))"

text \<open>
  The growth of a trade before fees, from its direction and its entry and exit prices,
  and the statement that the recorded growth is that growth less the fees on it.
\<close>

definition rawGrowth :: "ITrade \<Rightarrow> jsnum" where
  "rawGrowth t =
     (if direction_t t = Long then exitPrice_t t / entryPrice_t t
      else (entryPrice_t t * Fin 2 - exitPrice_t t) / entryPrice_t t)"

definition feesApplied :: "jsnum \<Rightarrow> ITrade \<Rightarrow> bool" where
  "feesApplied f t = (growth_t t = rawGrowth t - rawGrowth t * f)"

text \<open>
  Two runs that differ in the fees only go through the same states, the completed trades
  apart; their trades are the same but for the growth and the rates of return, which the
  fees enter.
\<close>

definition sameTrade :: "ITrade \<Rightarrow> ITrade \<Rightarrow> bool" where
  "sameTrade a b =
     (a\<lparr> growth_t := growth_t b, rateOfReturnSeries_t := rateOfReturnSeries_t b \<rparr> = b)"

definition sameRun :: "'x BacktestState \<Rightarrow> 'x BacktestState \<Rightarrow> bool" where
  "sameRun a b =
     (a\<lparr> completedTrades := [] \<rparr> = b\<lparr> completedTrades := [] \<rparr>
      \<and> list_all2 sameTrade (completedTrades a) (completedTrades b))"



section \<open>Scenarios\<close>

definition mkBar :: "int \<Rightarrow> real \<Rightarrow> real \<Rightarrow> real \<Rightarrow> real \<Rightarrow> IBar" where
  "mkBar t o' h l c = \<lparr> time = t, open = Fin o', high = Fin h, low = Fin l, close = Fin c \<rparr>"

text \<open>A strategy that enters long whenever it is asked and has no other rule.\<close>

definition alwaysLong :: "(unit, unit) IStrategy" where
  "alwaysLong =
     \<lparr> parameters = (), lookbackPeriod = None, prepIndicators = None,
       entryRule = (\<lambda>_ _ _. [None]), exitRule = None, stopLoss = None,
       trailingStopLoss = None, profitTargetRule = None, fees = None \<rparr>"

definition trailingFive :: "(unit, unit) IStrategy" where
  "trailingFive = alwaysLong\<lparr> trailingStopLoss := Some (\<lambda>_ _ _ _. Fin 5) \<rparr>"

text \<open>
  The signal bar, then the entry at 100 and the three closes 102, 108 and 106; no low
  reaches the stop.
\<close>

definition ratchetBars :: "IBar list" where
  "ratchetBars = [mkBar 0 100 100 100 100, mkBar 1 100 103 99 102,
                  mkBar 2 102 109 101 108, mkBar 3 108 108 105 106]"

definition recordAll :: IBacktestOptions where
  "recordAll = \<lparr> recordStopPrice = True, recordRisk = False, recordRateOfReturn = True \<rparr>"

text \<open>A long position held from 100 with its stop at 95 and its target at 110, and a short one
  with its stop at 105.\<close>

definition heldLong :: "unit BacktestState" where
  "heldLong =
     (initialState 1)\<lparr> positionStatus := Position,
        openPosition := Some ((newPosition Long (mkBar 1 100 101 99 100))
                                \<lparr> curStopPrice := Some (Fin 95), profitTarget := Some (Fin 110) \<rparr>) \<rparr>"

definition heldShort :: "unit BacktestState" where
  "heldShort =
     (initialState 1)\<lparr> positionStatus := Position,
        openPosition := Some ((newPosition Short (mkBar 1 100 101 99 100))
                                \<lparr> curStopPrice := Some (Fin 105) \<rparr>) \<rparr>"

definition exitAtOpen :: "(unit, unit) IStrategy" where
  "exitAtOpen = alwaysLong\<lparr> exitRule := Some (\<lambda>_ _ _ _. [(None, None)]) \<rparr>"

text \<open>Long with an initial stop five below the entry; fees of a quarter, for a strategy that
  holds to the end and for one that exits at the open after the entry bar.\<close>

definition stopFive :: "(unit, unit) IStrategy" where
  "stopFive = alwaysLong\<lparr> stopLoss := Some (\<lambda>_ _ _ _. Fin 5) \<rparr>"

definition feeQuarter :: "(unit, unit) IStrategy" where
  "feeQuarter = alwaysLong\<lparr> fees := Some (Fin (1 / 4)) \<rparr>"

definition feeQuarterExit :: "(unit, unit) IStrategy" where
  "feeQuarterExit = exitAtOpen\<lparr> fees := Some (Fin (1 / 4)) \<rparr>"

text \<open>
  Entered at 100 and closed by the exit rule at the next open, 125; entered again at 200
  and still open at the end, where the close is 300.
\<close>

definition feeBars :: "IBar list" where
  "feeBars = [mkBar 0 100 100 100 100, mkBar 1 100 100 100 100, mkBar 2 125 125 125 125,
              mkBar 3 200 200 200 200, mkBar 4 200 300 200 300]"

text \<open>A series whose entry bar opens at the price 0.\<close>

definition zeroEntryBars :: "IBar list" where
  "zeroEntryBars = [mkBar 0 100 100 100 100, mkBar 1 0 0 0 0, mkBar 2 120 120 120 120]"

text \<open>Three bars, the strategy enters on the first: the entry fills at 110.\<close>

definition s1Bars :: "IBar list" where
  "s1Bars = [mkBar 0 100 100 100 100, mkBar 1 110 110 110 110, mkBar 2 120 120 120 120]"

text \<open>After the entry at 100 with the stop at 95: a last bar that trades through the stop, and
  a bar that opens on the stop.\<close>

definition lastBarStop :: "IBar list" where
  "lastBarStop = [mkBar 0 100 100 100 100, mkBar 1 100 101 99 100, mkBar 2 98 99 94 96]"

definition openAtStop :: "IBar list" where
  "openAtStop = [mkBar 0 100 100 100 100, mkBar 1 100 101 99 100, mkBar 2 95 96 94 95]"

text \<open>The stop price of the open position after a run, and the run of the trailing-stop
  scenario before its last bar, with that bar in the lookback buffer.\<close>

definition stopAfter :: "(unit, unit) IStrategy \<Rightarrow> IBar list \<Rightarrow> jsnum option" where
  "stopAfter strategy bars =
     (case runBars strategy bars None of
        Inl e \<Rightarrow> None
      | Inr st \<Rightarrow> (case openPosition st of None \<Rightarrow> None | Some p \<Rightarrow> curStopPrice p))"

definition ratchetState :: "unit BacktestState" where
  "ratchetState =
     (let st = projr (runBars trailingFive (take 3 ratchetBars) None)
      in st\<lparr> lookbackBuffer := cb_push (lookbackBuffer st) (mkBar 3 108 108 105 106) \<rparr>)"

text \<open>An \<open>isNumber\<close> that accepts the finite numbers, with statistics that no scenario looks
  at; trades for the analyzer; options with a start date and a time frame.\<close>

definition noStatistics :: Libraries where
  "noStatistics = \<lparr> isNumber = is_finite, Series_average = (\<lambda>_. NaN),
                    Series_std = (\<lambda>_. NaN), math_std = (\<lambda>_. NaN) \<rparr>"



definition datedOptions :: IAnalyzeOptions where
  "datedOptions = \<lparr> startingDate = Some 0, endingDate = None, timeframe = Some (Fin 1000) \<rparr>"

section \<open>Evaluation\<close>

lemmas run_simps =
  backtest_def runBars_def theOptions_def theFees_def theLookbackPeriod_def initialState_def
  theIndicators_def theTimeframe_def new_CBuffer_def backtestBar_def cb_push_def caseNone_def
  caseEnter_def casePosition_def caseExit_def enterPosition_def exitPosition_def
  exitOnCondition_def lookback_data_def List.map_filter_def newPosition_def updateRunUp_def
  updatePosition_def minus_jsnum_def closePosition_def finalizePosition_def Let_def
  enterStopLoss_def enterRisk_def enterRateOfReturn_def enterProfitTarget_def
  enterTrailingStop_def recordRiskSample_def recordRateOfReturnSample_def
  revaluateTrailingStop_def

lemmas scenario_simps =
  mkBar_def alwaysLong_def trailingFive_def ratchetBars_def recordAll_def heldLong_def
  heldShort_def exitAtOpen_def

lemmas analyze_simps =
  analyze_def analyzeTimeframe_def prepareRateOfReturnList_def initialAnalyzeState_def
  theAnalysis_def analyzeTrade_def Let_def List.map_filter_def minus_jsnum_def getTime_def
  noStatistics_def

section \<open>The handles change the status only\<close>

lemma exitCalls_result:
  "exitCalls st cs = Inr st' \<Longrightarrow>
     st' = st \<or> (\<exists>price reason. st' = st\<lparr> positionStatus := Exit, exitPrice := price,
                                              exitReason := reason \<rparr>)"
proof (induction cs arbitrary: st)
  case Nil
  then show ?case by simp
next
  case (Cons c cs)
  show ?case
  proof (cases cs)
    case Nil
    with Cons.prems show ?thesis
      by (auto simp: exitPosition_def split: if_splits)
  next
    case (Cons d ds)
    with Cons.prems show ?thesis
      by (auto simp: exitPosition_def split: if_splits)
  qed
qed

lemma enterCalls_result:
  "enterCalls st cs = Inr st' \<Longrightarrow>
     st' = st \<or> (\<exists>d. st' = st\<lparr> positionStatus := Enter, positionDirection := d \<rparr>)"
proof (induction cs arbitrary: st)
  case Nil
  then show ?case by simp
next
  case (Cons c cs)
  show ?case
  proof (cases cs)
    case Nil
    with Cons.prems show ?thesis
      by (auto simp: enterPosition_def split: if_splits)
  next
    case (Cons d ds)
    with Cons.prems show ?thesis
      by (auto simp: enterPosition_def split: if_splits)
  qed
qed

lemma exitOnCondition_result:
  "exitOnCondition strategy st bar = Inr st' \<Longrightarrow>
     st' = st \<or> (\<exists>price reason. st' = st\<lparr> positionStatus := Exit, exitPrice := price,
                                              exitReason := reason \<rparr>)"
  unfolding exitOnCondition_def
  by (auto simp: exitPosition_def split: option.splits if_splits dest: exitCalls_result)

section \<open>The order of the intrabar exits\<close>

text \<open>
  C1. While a position is open, \<open>exitOnCondition\<close> checks the stop-loss, then the profit
  target, then the exit rule of the strategy, and the first that matches decides. A long
  stop-loss triggers when the low of the bar is at or below the current stop price and
  fills at the smaller of the stop price and the open; a short one triggers when the high
  is at or above the stop price and fills at the larger of the two; the reason is
  \<open>stop-loss\<close> in both cases.
\<close>

theorem exitOnCondition_order:
  assumes "openPosition st = Some p" and "positionStatus st = Position"
  shows "exitOnCondition strategy st bar =
           (case intrabarExit p bar of
              Some (price, reason) \<Rightarrow>
                Inr (st\<lparr> positionStatus := Exit, exitPrice := Some price,
                          exitReason := Some reason \<rparr>)
            | None \<Rightarrow>
                (case exitRule strategy of
                   None \<Rightarrow> Inr st
                 | Some rule \<Rightarrow>
                     exitCalls st (rule (parameters strategy) p bar
                                     (lookback_data (lookbackBuffer st)))))"
  using assms
  by (cases "direction p"; cases "curStopPrice p"; cases "profitTarget p")
     (simp_all add: exitOnCondition_def intrabarExit_def exitPosition_def)

text \<open>
  On a bar that gaps below the stop and also reaches the target the stop-loss wins, at the
  open; a bar that reaches the target only exits there; a short position stops out at the
  larger of stop and open; a quiet bar leaves the decision to the exit rule.
\<close>

theorem exitOnCondition_order_witness:
  "exitOnCondition alwaysLong heldLong (mkBar 2 90 112 88 91) =
     Inr (heldLong\<lparr> positionStatus := Exit, exitPrice := Some (Fin 90),
                     exitReason := Some ''stop-loss'' \<rparr>)
   \<and> exitOnCondition alwaysLong heldLong (mkBar 2 105 115 104 112) =
     Inr (heldLong\<lparr> positionStatus := Exit, exitPrice := Some (Fin 110),
                     exitReason := Some ''profit-target'' \<rparr>)
   \<and> exitOnCondition alwaysLong heldShort (mkBar 2 107 108 101 102) =
     Inr (heldShort\<lparr> positionStatus := Exit, exitPrice := Some (Fin 107),
                      exitReason := Some ''stop-loss'' \<rparr>)
   \<and> exitOnCondition alwaysLong heldLong (mkBar 2 100 101 99 100) = Inr heldLong
   \<and> exitOnCondition exitAtOpen heldLong (mkBar 2 100 101 99 100) =
     Inr (heldLong\<lparr> positionStatus := Exit, exitPrice := None, exitReason := None \<rparr>)"
proof -
  have pos: "positionStatus heldLong = Position" "positionStatus heldShort = Position"
    by (simp_all add: heldLong_def heldShort_def)
  have long: "openPosition heldLong = Some (the (openPosition heldLong))"
    and short: "openPosition heldShort = Some (the (openPosition heldShort))"
    by (simp_all add: heldLong_def heldShort_def)
  show ?thesis
    using exitOnCondition_order[OF long pos(1), of alwaysLong "mkBar 2 90 112 88 91"]
      exitOnCondition_order[OF long pos(1), of alwaysLong "mkBar 2 105 115 104 112"]
      exitOnCondition_order[OF short pos(2), of alwaysLong "mkBar 2 107 108 101 102"]
      exitOnCondition_order[OF long pos(1), of alwaysLong "mkBar 2 100 101 99 100"]
      exitOnCondition_order[OF long pos(1), of exitAtOpen "mkBar 2 100 101 99 100"]
    by (simp add: intrabarExit_def scenario_simps exitPosition_def initialState_def
          newPosition_def)
qed

section \<open>The length of the recorded rates of return\<close>

lemma finalizePosition_series:
  "seriesMatches (rateOfReturnSeries p) (holdingPeriod p) \<Longrightarrow>
   seriesMatches (rateOfReturnSeries_t (finalizePosition p t price reason f))
     (holdingPeriod_t (finalizePosition p t price reason f))"
  by (auto simp: seriesMatches_def finalizePosition_def Let_def split: option.splits)

lemma updatePosition_series:
  "rateOfReturnSeries (updatePosition p bar) = rateOfReturnSeries p"
  "holdingPeriod (updatePosition p bar) = holdingPeriod p + 1"
  by (simp_all add: updatePosition_def Let_def split: option.splits)

lemma updateRunUp_series:
  "rateOfReturnSeries (updateRunUp p bar) = rateOfReturnSeries p"
  "holdingPeriod (updateRunUp p bar) = holdingPeriod p"
  by (simp_all add: updateRunUp_def)

lemma caseNone_inv:
  "caseNone strategy st bar = Inr st' \<Longrightarrow> rateOfReturnInv st \<Longrightarrow> rateOfReturnInv st'"
  by (auto simp: caseNone_def rateOfReturnInv_def dest!: enterCalls_result)

lemma caseExit_inv:
  "caseExit f st bar = Inr st' \<Longrightarrow> rateOfReturnInv st \<Longrightarrow> rateOfReturnInv st'"
  by (auto simp: caseExit_def rateOfReturnInv_def closePosition_def Let_def
           intro: finalizePosition_series split: if_splits)

lemma enter_blocks_series:
  "rateOfReturnSeries (enterStopLoss strategy p bar lb) = rateOfReturnSeries p"
  "holdingPeriod (enterStopLoss strategy p bar lb) = holdingPeriod p"
  "rateOfReturnSeries (enterRisk options p bar) = rateOfReturnSeries p"
  "holdingPeriod (enterRisk options p bar) = holdingPeriod p"
  "rateOfReturnSeries (enterProfitTarget strategy p bar lb) = rateOfReturnSeries p"
  "holdingPeriod (enterProfitTarget strategy p bar lb) = holdingPeriod p"
  "rateOfReturnSeries (enterTrailingStop strategy options p bar lb) = rateOfReturnSeries p"
  "holdingPeriod (enterTrailingStop strategy options p bar lb) = holdingPeriod p"
  by (simp_all add: enterStopLoss_def enterRisk_def enterProfitTarget_def enterTrailingStop_def
        Let_def split: option.splits)

lemma enterRateOfReturn_series:
  "recordRateOfReturn options \<Longrightarrow> rateOfReturnSeries (enterRateOfReturn options p) = Some []"
  "holdingPeriod (enterRateOfReturn options p) = holdingPeriod p"
  by (simp_all add: enterRateOfReturn_def)

lemma caseEnter_inv:
  assumes "caseEnter strategy options st bar = Inr st'" and "rateOfReturnInv st"
    and "recordRateOfReturn options"
  shows "rateOfReturnInv st'"
proof -
  from assms(1) obtain st2 p where
    st2: "exitOnCondition strategy
            (st\<lparr> openPosition := Some p, positionStatus := Position \<rparr>) bar = Inr st2"
    and p: "rateOfReturnSeries p = Some []" "holdingPeriod p = 0"
    and st': "st' = st2\<lparr> openPosition := Some (updateRunUp
                 (enterTrailingStop strategy options p bar (lookback_data (lookbackBuffer st))) bar) \<rparr>"
    using assms(3)
    by (auto simp: caseEnter_def Let_def enter_blocks_series enterRateOfReturn_series
                   newPosition_def split: if_splits sum.splits)
  from exitOnCondition_result[OF st2] have "completedTrades st2 = completedTrades st"
    by auto
  with assms(2) p st' show ?thesis
    by (simp add: rateOfReturnInv_def seriesMatches_def updateRunUp_series enter_blocks_series)
qed

lemma recordRiskSample_series:
  "recordRiskSample options p bar = Inr p' \<Longrightarrow>
     rateOfReturnSeries p' = rateOfReturnSeries p \<and> holdingPeriod p' = holdingPeriod p"
  by (auto simp: recordRiskSample_def split: if_splits option.splits)

lemma recordRateOfReturnSample_series:
  "recordRateOfReturnSample options p bar = Inr p' \<Longrightarrow> recordRateOfReturn options \<Longrightarrow>
     seriesMatches (rateOfReturnSeries p) n \<Longrightarrow>
     seriesMatches (rateOfReturnSeries p') (Suc n) \<and> holdingPeriod p' = holdingPeriod p"
  by (auto simp: recordRateOfReturnSample_def seriesMatches_def split: if_splits option.splits)

lemma revaluateTrailingStop_series:
  "revaluateTrailingStop strategy options p bar lb = Inr p' \<Longrightarrow>
     rateOfReturnSeries p' = rateOfReturnSeries p \<and> holdingPeriod p' = holdingPeriod p"
  by (auto simp: revaluateTrailingStop_def Let_def split: if_splits option.splits)

lemma casePosition_inv:
  assumes "casePosition strategy options st bar = Inr st'" and "rateOfReturnInv st"
    and "recordRateOfReturn options"
  shows "rateOfReturnInv st'"
proof -
  from assms(1) obtain p p2 p3 st2 p5 where
    p: "openPosition st = Some p"
    and p2: "recordRiskSample options (updatePosition p bar) bar = Inr p2"
    and p3: "recordRateOfReturnSample options p2 bar = Inr p3"
    and st2: "exitOnCondition strategy (st\<lparr> openPosition := Some p3 \<rparr>) bar = Inr st2"
    and p5: "revaluateTrailingStop strategy options p3 bar (lookback_data (lookbackBuffer st)) = Inr p5"
    and st': "st' = st2\<lparr> openPosition := Some (updateRunUp p5 bar) \<rparr>"
    by (auto simp: casePosition_def split: option.splits sum.splits)
  from assms(2) p have "seriesMatches (rateOfReturnSeries p) (holdingPeriod p)"
    by (simp add: rateOfReturnInv_def)
  with recordRiskSample_series[OF p2]
  have "seriesMatches (rateOfReturnSeries p2) (holdingPeriod p)"
    and "holdingPeriod p2 = Suc (holdingPeriod p)"
    by (simp_all add: updatePosition_series)
  with recordRateOfReturnSample_series[OF p3 assms(3)]
  have "seriesMatches (rateOfReturnSeries p3) (holdingPeriod p3)" by simp
  with revaluateTrailingStop_series[OF p5]
  have "seriesMatches (rateOfReturnSeries p5) (holdingPeriod p5)" by simp
  moreover from exitOnCondition_result[OF st2] have "completedTrades st2 = completedTrades st"
    by auto
  ultimately show ?thesis using assms(2) st'
    by (simp add: rateOfReturnInv_def updateRunUp_series)
qed


lemma backtestBar_inv:
  assumes "backtestBar strategy options f n st bar = Inr st'" and "rateOfReturnInv st"
    and "recordRateOfReturn options"
  shows "rateOfReturnInv st'"
proof -
  let ?st1 = "st\<lparr> lookbackBuffer := cb_push (lookbackBuffer st) bar \<rparr>"
  have inv1: "rateOfReturnInv ?st1"
    using assms(2) by (simp add: rateOfReturnInv_def)
  show ?thesis
  proof (cases "cb_length (lookbackBuffer ?st1) < n")
    case True
    with assms(1) inv1 show ?thesis
      by (simp add: backtestBar_def Let_def)
  next
    case False
    with assms(1) have
      "(case positionStatus ?st1 of
          NoneStatus \<Rightarrow> caseNone strategy ?st1 bar
        | Enter \<Rightarrow> caseEnter strategy options ?st1 bar
        | Position \<Rightarrow> casePosition strategy options ?st1 bar
        | Exit \<Rightarrow> caseExit f ?st1 bar) = Inr st'"
      by (simp add: backtestBar_def Let_def)
    then show ?thesis
      using inv1 assms(3)
      by (cases "positionStatus ?st1")
         (auto intro: caseNone_inv caseEnter_inv casePosition_inv caseExit_inv)
  qed
qed

lemma backtestLoop_inv:
  assumes "backtestLoop strategy options f n st bars = Inr st'" and "rateOfReturnInv st"
    and "recordRateOfReturn options"
  shows "rateOfReturnInv st'"
  using assms
proof (induction bars arbitrary: st)
  case Nil
  then show ?case by simp
next
  case (Cons bar bars)
  then show ?case
    by (auto split: sum.splits intro: backtestBar_inv)
qed

text \<open>
  C3, as the code has it. With \<open>recordRateOfReturn\<close> on, the series of every trade that
  \<open>backtest\<close> returns has exactly as many samples as the holding period of the trade: one
  for each update of the position and one at the close, and the holding period counts
  the same steps.
\<close>

theorem rateOfReturnSeries_length:
  assumes "backtest strategy inputSeries options = Inr trades"
    and "recordRateOfReturn (theOptions options)"
  shows "\<forall>t \<in> set trades. \<exists>xs. rateOfReturnSeries_t t = Some xs \<and> length xs = holdingPeriod_t t"
proof -
  from assms(1) obtain st where
    run: "runBars strategy inputSeries options = Inr st"
    and trades: "trades = (case openPosition st of
                   None \<Rightarrow> completedTrades st
                 | Some p \<Rightarrow> completedTrades st
                     @ [finalizePosition p
                          (time (last (theIndicators strategy inputSeries)) + theTimeframe inputSeries)
                          (close (last (theIndicators strategy inputSeries))) ''finalize''
                          (theFees strategy)])"
    by (auto simp: backtest_def Let_def split: if_splits sum.splits option.splits)
  have init: "rateOfReturnInv (initialState (theLookbackPeriod strategy) :: 'b BacktestState)"
    by (simp add: rateOfReturnInv_def initialState_def)
  have inv: "rateOfReturnInv st"
    using backtestLoop_inv[OF run[unfolded runBars_def] init assms(2)] .
  have "list_all (\<lambda>t. seriesMatches (rateOfReturnSeries_t t) (holdingPeriod_t t)) trades"
    using inv trades
    by (auto simp: rateOfReturnInv_def intro: finalizePosition_series split: option.splits)
  then show ?thesis
    by (auto simp: list_all_iff seriesMatches_def split: option.splits)
qed

text \<open>The run of the trailing-stop scenario with the series recorded, one trade.\<close>

theorem rateOfReturnSeries_length_witness:
  "recordRateOfReturn (theOptions (Some recordAll))
   \<and> length (projr (backtest trailingFive ratchetBars (Some recordAll))) = 1
   \<and> list_all (\<lambda>t. map_option length (rateOfReturnSeries_t t) = Some (holdingPeriod_t t))
       (projr (backtest trailingFive ratchetBars (Some recordAll)))"
proof -
  have opts: "recordRateOfReturn (theOptions (Some recordAll))"
    by (simp add: theOptions_def recordAll_def)
  have "\<not> isl (backtest trailingFive ratchetBars (Some recordAll))"
    and len: "length (projr (backtest trailingFive ratchetBars (Some recordAll))) = 1"
    by (simp_all add: scenario_simps run_simps)
  then have run: "backtest trailingFive ratchetBars (Some recordAll)
                  = Inr (projr (backtest trailingFive ratchetBars (Some recordAll)))"
    by simp
  from rateOfReturnSeries_length[OF run opts] opts len show ?thesis
    by (auto simp: list_all_iff)
qed

text \<open>
  C3, as the specification states it, fails: in that run the trade is held for three
  steps and its series has three samples, not four.
\<close>

theorem rateOfReturnSeries_length_counterexample:
  "recordRateOfReturn recordAll
   \<and> map_sum id (map holdingPeriod_t) (backtest trailingFive ratchetBars (Some recordAll))
     = Inr [3]
   \<and> map_sum id (map (map_option length \<circ> rateOfReturnSeries_t))
       (backtest trailingFive ratchetBars (Some recordAll))
     = Inr [Some 3]
   \<and> map_sum id (map (map_option length \<circ> rateOfReturnSeries_t))
       (backtest trailingFive ratchetBars (Some recordAll))
     \<noteq> map_sum id (map (Some \<circ> Suc \<circ> holdingPeriod_t))
         (backtest trailingFive ratchetBars (Some recordAll))"
  by (simp add: scenario_simps run_simps)

section \<open>The trailing stop\<close>

text \<open>
  C2, as the specification states it, fails. Long from 100 with a trailing distance of 5
  and no initial stop: after the bar that closes at 108 the stop is 103, and after the bar
  that closes at 106 it is 101, not 103.
\<close>

theorem trailing_stop_counterexample:
  "stopAfter trailingFive (take 3 ratchetBars) = Some (Fin 103)
   \<and> stopAfter trailingFive ratchetBars = Some (Fin 101)
   \<and> stopAfter trailingFive ratchetBars \<noteq> Some (Fin 103)"
  by (simp add: stopAfter_def scenario_simps run_simps)

lemma position_blocks_stop:
  "initialStopPrice (updatePosition p bar) = initialStopPrice p"
  "direction (updatePosition p bar) = direction p"
  "recordRiskSample options p bar = Inr p' \<Longrightarrow>
     initialStopPrice p' = initialStopPrice p \<and> direction p' = direction p"
  "recordRateOfReturnSample options p bar = Inr p' \<Longrightarrow>
     initialStopPrice p' = initialStopPrice p \<and> direction p' = direction p"
  by (auto simp: updatePosition_def recordRiskSample_def recordRateOfReturnSample_def Let_def
           split: option.splits if_splits)

lemma revaluateTrailingStop_no_initial:
  assumes "revaluateTrailingStop strategy options p bar lb = Inr p'"
    and "trailingStopLoss strategy = Some (\<lambda>_ _ _ _. d)" and "initialStopPrice p = None"
  shows "curStopPrice p' = Some (if direction p = Long then close bar - d else close bar + d)"
  using assms
  by (auto simp: revaluateTrailingStop_def Let_def split: option.splits if_splits)

lemma updateRunUp_stop: "curStopPrice (updateRunUp p bar) = curStopPrice p"
  by (simp add: updateRunUp_def)

text \<open>
  C2, as the code has it. While a position without an initial stop is held, every bar sets
  the current stop to the close less the trailing distance for a long position (plus the
  distance for a short one), whatever the stop was before: the stop follows the close and
  loosens when the close falls back. In the scenario it is 103 after the close at 108 and
  101 after the close at 106.
\<close>

theorem trailing_stop_follows_close:
  assumes "casePosition strategy options st bar = Inr st'"
    and "openPosition st = Some p" and "initialStopPrice p = None"
    and "trailingStopLoss strategy = Some (\<lambda>_ _ _ _. d)"
  shows "map_option curStopPrice (openPosition st')
         = Some (Some (if direction p = Long then close bar - d else close bar + d))"
proof -
  from assms(1,2) obtain p2 p3 st2 p5 where
    p2: "recordRiskSample options (updatePosition p bar) bar = Inr p2"
    and p3: "recordRateOfReturnSample options p2 bar = Inr p3"
    and p5: "revaluateTrailingStop strategy options p3 bar (lookback_data (lookbackBuffer st)) = Inr p5"
    and st': "st' = st2\<lparr> openPosition := Some (updateRunUp p5 bar) \<rparr>"
    by (auto simp: casePosition_def split: option.splits sum.splits)
  from position_blocks_stop(3)[OF p2] position_blocks_stop(4)[OF p3] assms(3)
  have "initialStopPrice p3 = None" and "direction p3 = direction p"
    by (simp_all add: position_blocks_stop)
  with revaluateTrailingStop_no_initial[OF p5 assms(4)] st' show ?thesis
    by (simp add: updateRunUp_stop)
qed

text \<open>
  The scenario: the last bar of the run is a step of the case \<open>Position\<close> from a state
  whose stop is 103, and it leaves the stop at 101.
\<close>

theorem trailing_stop_follows_close_witness:
  "casePosition trailingFive (theOptions None) ratchetState (mkBar 3 108 108 105 106)
     = runBars trailingFive ratchetBars None
   \<and> map_option curStopPrice (openPosition ratchetState) = Some (Some (Fin 103))
   \<and> map_option initialStopPrice (openPosition ratchetState) = Some None
   \<and> map_option curStopPrice (openPosition (projr (runBars trailingFive ratchetBars None)))
     = Some (Some (Fin 101))"
proof -
  let ?bar = "mkBar 3 108 108 105 106"
  have eq: "casePosition trailingFive (theOptions None) ratchetState ?bar
            = runBars trailingFive ratchetBars None"
    and run: "\<not> isl (runBars trailingFive ratchetBars None)"
    and st: "openPosition ratchetState = Some (the (openPosition ratchetState))"
    and init: "initialStopPrice (the (openPosition ratchetState)) = None"
    and dir: "direction (the (openPosition ratchetState)) = Long"
    and cur: "map_option curStopPrice (openPosition ratchetState) = Some (Some (Fin 103))"
    by (simp_all add: ratchetState_def scenario_simps run_simps)
  have f: "trailingStopLoss trailingFive = Some (\<lambda>_ _ _ _. Fin 5)"
    by (simp add: trailingFive_def)
  from eq run have step: "casePosition trailingFive (theOptions None) ratchetState ?bar
                          = Inr (projr (runBars trailingFive ratchetBars None))"
    by simp
  have init': "map_option initialStopPrice (openPosition ratchetState) = Some None"
    using st init by (metis option.simps(9))
  from trailing_stop_follows_close[OF step st init f] eq cur init' dir show ?thesis
    by (simp add: mkBar_def minus_jsnum_def)
qed

section \<open>The end of the series\<close>

text \<open>
  C6. When the loop ends with a position open, \<open>backtest\<close> appends one more trade: that
  position, finalized at the close of the last bar, at the time of that bar plus the time
  frame, for the reason \<open>finalize\<close>. The trade has the direction, the entry time and the
  entry price of the position and holds it one step longer. The time frame is the time
  from the first to the last bar of the input over the number of bars, rounded.
\<close>

theorem finalize_open_position:
  assumes "inputSeries \<noteq> []" and "theLookbackPeriod strategy \<le> length inputSeries"
    and "runBars strategy inputSeries options = Inr st" and "openPosition st = Some p"
  shows "\<exists>t. backtest strategy inputSeries options = Inr (completedTrades st @ [t])
             \<and> t = finalizePosition p
                     (time (last (theIndicators strategy inputSeries)) + theTimeframe inputSeries)
                     (close (last (theIndicators strategy inputSeries))) ''finalize''
                     (theFees strategy)
             \<and> direction_t t = direction p
             \<and> entryTime_t t = entryTime p
             \<and> entryPrice_t t = entryPrice p
             \<and> holdingPeriod_t t = holdingPeriod p + 1
             \<and> exitPrice_t t = close (last (theIndicators strategy inputSeries))
             \<and> exitTime_t t = time (last (theIndicators strategy inputSeries))
                              + theTimeframe inputSeries
             \<and> exitReason_t t = ''finalize''
             \<and> theTimeframe inputSeries
                 = round (real_of_int (time (last inputSeries) - time (hd inputSeries))
                          / real (length inputSeries))"
proof -
  have fields: "direction_t (finalizePosition p t price reason f) = direction p"
    "entryTime_t (finalizePosition p t price reason f) = entryTime p"
    "entryPrice_t (finalizePosition p t price reason f) = entryPrice p"
    "holdingPeriod_t (finalizePosition p t price reason f) = holdingPeriod p + 1"
    "exitPrice_t (finalizePosition p t price reason f) = price"
    "exitTime_t (finalizePosition p t price reason f) = t"
    "exitReason_t (finalizePosition p t price reason f) = reason"
    for t price reason f
    by (simp_all add: finalizePosition_def Let_def split: option.splits)
  from assms show ?thesis
    by (simp add: backtest_def Let_def fields theTimeframe_def round_def)
qed

text \<open>
  Three bars numbered 0 to 2: the time frame is 1, and the position entered long at 110 at
  time 1 and held for one step is closed at 120 at time 3, held for two.
\<close>

theorem finalize_open_position_witness:
  "s1Bars \<noteq> [] \<and> theLookbackPeriod alwaysLong \<le> length s1Bars
   \<and> map_option (\<lambda>p. (direction p, entryTime p, entryPrice p, holdingPeriod p))
       (openPosition (projr (runBars alwaysLong s1Bars None))) = Some (Long, 1, Fin 110, 1)
   \<and> completedTrades (projr (runBars alwaysLong s1Bars None)) = []
   \<and> map_sum id (map (\<lambda>t. (direction_t t, entryTime_t t, entryPrice_t t, holdingPeriod_t t,
                           exitTime_t t, exitPrice_t t, exitReason_t t)))
        (backtest alwaysLong s1Bars None)
      = Inr [(Long, 1, Fin 110, 2, 3, Fin 120, ''finalize'')]
   \<and> theTimeframe s1Bars = 1"
proof -
  let ?st = "projr (runBars alwaysLong s1Bars None)"
  let ?p = "the (openPosition ?st)"
  have ne: "s1Bars \<noteq> []" and lb: "theLookbackPeriod alwaysLong \<le> length s1Bars"
    by (simp_all add: s1Bars_def theLookbackPeriod_def alwaysLong_def)
  have "\<not> isl (runBars alwaysLong s1Bars None)"
    and pos: "openPosition ?st = Some ?p"
    and p: "direction ?p = Long" "entryTime ?p = 1" "entryPrice ?p = Fin 110"
      "holdingPeriod ?p = 1"
    and nodone: "completedTrades ?st = []"
    by (simp_all add: s1Bars_def scenario_simps run_simps)
  then have run: "runBars alwaysLong s1Bars None = Inr ?st"
    by simp
  have vals: "time (last (theIndicators alwaysLong s1Bars)) = 2"
    "close (last (theIndicators alwaysLong s1Bars)) = Fin 120"
    "round (real_of_int (time (last s1Bars) - time (hd s1Bars)) / real (length s1Bars)) = 1"
    by (simp_all add: s1Bars_def theIndicators_def alwaysLong_def mkBar_def round_def)
  have held: "map_option (\<lambda>p. (direction p, entryTime p, entryPrice p, holdingPeriod p))
       (openPosition ?st) = Some (Long, 1, Fin 110, 1)"
    by (subst pos) (simp add: p)
  from finalize_open_position[OF ne lb run pos] nodone vals p
  have trade: "map_sum id (map (\<lambda>t. (direction_t t, entryTime_t t, entryPrice_t t,
                           holdingPeriod_t t, exitTime_t t, exitPrice_t t, exitReason_t t)))
        (backtest alwaysLong s1Bars None)
      = Inr [(Long, 1, Fin 110, 2, 3, Fin 120, ''finalize'')]"
    and tf: "theTimeframe s1Bars = 1"
    by auto
  from ne lb held nodone trade tf show ?thesis by (intro conjI)
qed

lemma initialState_positionInv: "positionInv (initialState n)"
  by (simp add: positionInv_def initialState_def)

lemma caseNone_positionInv:
  "caseNone strategy st bar = Inr st' \<Longrightarrow> positionStatus st = NoneStatus \<Longrightarrow>
     positionInv st \<Longrightarrow> positionInv st'"
  by (auto simp: caseNone_def positionInv_def dest!: enterCalls_result)

lemma caseEnter_positionInv:
  "caseEnter strategy options st bar = Inr st' \<Longrightarrow> positionInv st'"
  by (auto simp: caseEnter_def positionInv_def Let_def split: if_splits sum.splits
           dest!: exitOnCondition_result)

lemma casePosition_positionInv:
  "casePosition strategy options st bar = Inr st' \<Longrightarrow> positionStatus st = Position \<Longrightarrow>
     positionInv st'"
  by (auto simp: casePosition_def positionInv_def split: option.splits sum.splits
           dest!: exitOnCondition_result)

lemma caseExit_positionInv:
  "caseExit f st bar = Inr st' \<Longrightarrow> positionInv st'"
  by (auto simp: caseExit_def positionInv_def closePosition_def Let_def split: if_splits)

lemma backtestBar_positionInv:
  assumes "backtestBar strategy options f n st bar = Inr st'" and "positionInv st"
  shows "positionInv st'"
proof -
  let ?st1 = "st\<lparr> lookbackBuffer := cb_push (lookbackBuffer st) bar \<rparr>"
  have inv1: "positionInv ?st1"
    using assms(2) by (simp add: positionInv_def)
  show ?thesis
  proof (cases "cb_length (lookbackBuffer ?st1) < n")
    case True
    with assms(1) inv1 show ?thesis
      by (simp add: backtestBar_def Let_def)
  next
    case False
    with assms(1) have
      "(case positionStatus ?st1 of
          NoneStatus \<Rightarrow> caseNone strategy ?st1 bar
        | Enter \<Rightarrow> caseEnter strategy options ?st1 bar
        | Position \<Rightarrow> casePosition strategy options ?st1 bar
        | Exit \<Rightarrow> caseExit f ?st1 bar) = Inr st'"
      by (simp add: backtestBar_def Let_def)
    then show ?thesis
      using inv1
      by (cases "positionStatus ?st1")
         (auto intro: caseNone_positionInv caseEnter_positionInv casePosition_positionInv
                      caseExit_positionInv)
  qed
qed

lemma backtestLoop_positionInv:
  "backtestLoop strategy options f n st bars = Inr st' \<Longrightarrow> positionInv st \<Longrightarrow> positionInv st'"
proof (induction bars arbitrary: st)
  case Nil
  then show ?case by simp
next
  case (Cons bar bars)
  then show ?case
    by (auto split: sum.splits intro: backtestBar_positionInv)
qed

lemma runBars_positionInv:
  "runBars strategy inputSeries options = Inr st \<Longrightarrow> positionInv st"
  unfolding runBars_def
  by (erule backtestLoop_positionInv) (rule initialState_positionInv)

lemma backtestLoop_append:
  "backtestLoop s opts f n st (xs @ ys) =
     (case backtestLoop s opts f n st xs of
        Inl e \<Rightarrow> Inl e
      | Inr st' \<Rightarrow> backtestLoop s opts f n st' ys)"
  by (induction xs arbitrary: st) (simp_all split: sum.splits)

lemma signal_on_last_bar:
  assumes "backtestLoop s opts f n st0 bars = Inr st1"
    and "positionStatus st1 = NoneStatus"
    and "n \<le> cb_length (cb_push (lookbackBuffer st1) bar)"
    and "entryRule s (parameters s) bar (lookback_data (cb_push (lookbackBuffer st1) bar)) = [c]"
  shows "\<exists>st. backtestLoop s opts f n st0 (bars @ [bar]) = Inr st
            \<and> positionStatus st = Enter \<and> completedTrades st = completedTrades st1"
  using assms
  by (simp add: backtestLoop_append backtestBar_def Let_def caseNone_def enterPosition_def)

text \<open>
  C8. A transition that is pending when the bars run out is not carried out. If the loop
  ends in the status \<open>Enter\<close>, no position was opened and \<open>backtest\<close> returns the trades
  completed before, none for the signal. If it ends in the status \<open>Exit\<close>, the position is
  still open and is closed at the close of the last bar for the reason \<open>finalize\<close>; the
  exit price and the exit reason that were recorded are not used. The loop ends in the
  status \<open>Enter\<close> when the entry rule calls \<open>enterPosition\<close> on the last bar: then
  \<open>backtest\<close> returns the trades that were complete before that bar.
\<close>

theorem pending_transition_at_end:
  assumes "inputSeries \<noteq> []" and "theLookbackPeriod strategy \<le> length inputSeries"
    and "runBars strategy inputSeries options = Inr st"
  shows "(positionStatus st = Enter \<longrightarrow>
            backtest strategy inputSeries options = Inr (completedTrades st))
       \<and> (positionStatus st = Exit \<longrightarrow>
            (\<exists>p t. openPosition st = Some p
                 \<and> backtest strategy inputSeries options = Inr (completedTrades st @ [t])
                 \<and> t = finalizePosition p
                         (time (last (theIndicators strategy inputSeries)) + theTimeframe inputSeries)
                         (close (last (theIndicators strategy inputSeries))) ''finalize''
                         (theFees strategy)
                 \<and> exitPrice_t t = close (last (theIndicators strategy inputSeries))
                 \<and> exitReason_t t = ''finalize''))
       \<and> (\<forall>bars bar st1 c.
            theIndicators strategy inputSeries = bars @ [bar] \<longrightarrow>
            runBars strategy bars options = Inr st1 \<longrightarrow>
            prepIndicators strategy = None \<longrightarrow>
            positionStatus st1 = NoneStatus \<longrightarrow>
            theLookbackPeriod strategy \<le> cb_length (cb_push (lookbackBuffer st1) bar) \<longrightarrow>
            entryRule strategy (parameters strategy) bar
              (lookback_data (cb_push (lookbackBuffer st1) bar)) = [c] \<longrightarrow>
            positionStatus st = Enter
            \<and> backtest strategy inputSeries options = Inr (completedTrades st1))"
proof -
  from runBars_positionInv[OF assms(3)] have inv: "positionInv st" .
  have ab: "(positionStatus st = Enter \<longrightarrow>
            backtest strategy inputSeries options = Inr (completedTrades st))
       \<and> (positionStatus st = Exit \<longrightarrow>
            (\<exists>p t. openPosition st = Some p
                 \<and> backtest strategy inputSeries options = Inr (completedTrades st @ [t])
                 \<and> t = finalizePosition p
                         (time (last (theIndicators strategy inputSeries)) + theTimeframe inputSeries)
                         (close (last (theIndicators strategy inputSeries))) ''finalize''
                         (theFees strategy)
                 \<and> exitPrice_t t = close (last (theIndicators strategy inputSeries))
                 \<and> exitReason_t t = ''finalize''))"
    using assms inv
    by (auto simp: backtest_def Let_def positionInv_def finalizePosition_def)
  have c: "positionStatus st = Enter
            \<and> backtest strategy inputSeries options = Inr (completedTrades st1)"
    if ind: "theIndicators strategy inputSeries = bars @ [bar]"
      and run1: "runBars strategy bars options = Inr st1"
      and prep: "prepIndicators strategy = None"
      and status: "positionStatus st1 = NoneStatus"
      and full: "theLookbackPeriod strategy \<le> cb_length (cb_push (lookbackBuffer st1) bar)"
      and rule: "entryRule strategy (parameters strategy) bar
                   (lookback_data (cb_push (lookbackBuffer st1) bar)) = [c]"
    for bars bar st1 c
  proof -
    from run1 prep have loop1:
      "backtestLoop strategy (theOptions options) (theFees strategy) (theLookbackPeriod strategy)
         (initialState (theLookbackPeriod strategy)) bars = Inr st1"
      by (simp add: runBars_def theIndicators_def)
    from signal_on_last_bar[OF loop1 status full rule] assms(3) ind
    have "positionStatus st = Enter" and "completedTrades st = completedTrades st1"
      by (auto simp: runBars_def)
    with ab show ?thesis by simp
  qed
  from ab c show ?thesis by blast
qed

text \<open>
  A signal on the only bar gives no trade; a stop-loss at 95 on the last bar is recorded
  in the state, and the trade is closed at the close, 96, for the reason \<open>finalize\<close>.
\<close>

theorem pending_transition_at_end_witness:
  "[mkBar 0 100 100 100 100] = [] @ [mkBar 0 100 100 100 100]
   \<and> map_sum id positionStatus (runBars alwaysLong [] None) = Inr NoneStatus
   \<and> entryRule alwaysLong (parameters alwaysLong) (mkBar 0 100 100 100 100)
         (lookback_data (cb_push (new_CBuffer 1) (mkBar 0 100 100 100 100))) = [None]
   \<and> map_sum id positionStatus (runBars alwaysLong [mkBar 0 100 100 100 100] None) = Inr Enter
   \<and> backtest alwaysLong [mkBar 0 100 100 100 100] None = Inr []
   \<and> map_sum id (\<lambda>st. (positionStatus st, exitPrice st, exitReason st))
        (runBars stopFive lastBarStop None) = Inr (Exit, Some (Fin 95), Some ''stop-loss'')
   \<and> map_sum id (map (\<lambda>t. (exitPrice_t t, exitReason_t t))) (backtest stopFive lastBarStop None)
      = Inr [(Fin 96, ''finalize'')]"
proof -
  let ?bar = "mkBar 0 100 100 100 100"
  let ?one = "[?bar]"
  let ?st0 = "initialState (theLookbackPeriod alwaysLong) :: unit BacktestState"
  have a: "?one \<noteq> []" "theLookbackPeriod alwaysLong \<le> length ?one"
    and b: "lastBarStop \<noteq> []" "theLookbackPeriod stopFive \<le> length lastBarStop"
    by (simp_all add: lastBarStop_def theLookbackPeriod_def alwaysLong_def stopFive_def)
  have ra: "\<not> isl (runBars alwaysLong ?one None)"
    and sa: "positionStatus (projr (runBars alwaysLong ?one None)) = Enter"
    and ta: "completedTrades (projr (runBars alwaysLong ?one None)) = []"
    by (simp_all add: scenario_simps run_simps)
  have rb: "\<not> isl (runBars stopFive lastBarStop None)"
    and sb: "positionStatus (projr (runBars stopFive lastBarStop None)) = Exit"
    and tb: "completedTrades (projr (runBars stopFive lastBarStop None)) = []"
    and cb: "close (last (theIndicators stopFive lastBarStop)) = Fin 96"
    by (simp_all add: stopFive_def lastBarStop_def scenario_simps run_simps)
  from ra have runa: "runBars alwaysLong ?one None = Inr (projr (runBars alwaysLong ?one None))"
    by simp
  from rb have runb: "runBars stopFive lastBarStop None
                      = Inr (projr (runBars stopFive lastBarStop None))"
    by simp
  have ind: "theIndicators alwaysLong ?one = [] @ [?bar]"
    and run0: "runBars alwaysLong [] None = Inr ?st0"
    and prep: "prepIndicators alwaysLong = None"
    and none: "positionStatus ?st0 = NoneStatus"
    and full: "theLookbackPeriod alwaysLong \<le> cb_length (cb_push (lookbackBuffer ?st0) ?bar)"
    and rule: "entryRule alwaysLong (parameters alwaysLong) ?bar
                 (lookback_data (cb_push (lookbackBuffer ?st0) ?bar)) = [None]"
    and done0: "completedTrades ?st0 = []"
    by (simp_all add: scenario_simps run_simps)
  note thm_a = pending_transition_at_end[OF a runa]
  from thm_a ind run0 prep none full rule done0
  have 1: "backtest alwaysLong ?one None = Inr []"
    by (metis (no_types, lifting))
  from pending_transition_at_end[OF b runb] sb tb cb
  have 2: "map_sum id (map (\<lambda>t. (exitPrice_t t, exitReason_t t)))
             (backtest stopFive lastBarStop None) = Inr [(Fin 96, ''finalize'')]"
    by auto
  have 3: "map_sum id positionStatus (runBars alwaysLong ?one None) = Inr Enter"
    and 4: "map_sum id (\<lambda>st. (positionStatus st, exitPrice st, exitReason st))
        (runBars stopFive lastBarStop None) = Inr (Exit, Some (Fin 95), Some ''stop-loss'')"
    and 5: "map_sum id positionStatus (runBars alwaysLong [] None) = Inr NoneStatus"
    and 6: "entryRule alwaysLong (parameters alwaysLong) ?bar
         (lookback_data (cb_push (new_CBuffer 1) ?bar)) = [None]"
    by (simp_all add: stopFive_def lastBarStop_def scenario_simps run_simps)
  have 0: "?one = [] @ ?one" by simp
  from 0 5 6 3 1 4 2 show ?thesis by (intro conjI)
qed

section \<open>The unit risk of an update\<close>

text \<open>
  C9. \<open>updatePosition\<close> divides the profit by the unit risk without a guard: when the bar
  opens at the current stop price the unit risk is zero, and \<open>curRMultiple\<close> is the profit
  over zero, which is no finite number.
\<close>

theorem updatePosition_unit_risk_zero:
  assumes "curStopPrice p = Some (open bar)" and "is_finite (open bar)"
  shows "curRMultiple (updatePosition p bar) = Some (profit (updatePosition p bar) / Fin 0)
       \<and> \<not> is_finite (the (curRMultiple (updatePosition p bar)))"
proof -
  from assms(2) obtain x where x: "open bar = Fin x" by (cases "open bar") auto
  have nf: "\<not> is_finite (a / Fin 0)" for a :: jsnum
    by (cases a) auto
  have "curRMultiple (updatePosition p bar) = Some (profit (updatePosition p bar) / Fin 0)"
    using assms(1) x by (simp add: updatePosition_def Let_def minus_jsnum_def)
  with nf show ?thesis by simp
qed

text \<open>
  The input is reachable: long from 100 with the stop at 95, the next bar opens at 95
  while the status is \<open>Position\<close>, and the R multiple of the position becomes
  \<open>-Infinity\<close>.
\<close>

theorem updatePosition_unit_risk_zero_witness:
  "map_sum id (\<lambda>st. (positionStatus st, map_option curStopPrice (openPosition st)))
     (runBars stopFive (take 2 openAtStop) None) = Inr (Position, Some (Some (Fin 95)))
   \<and> open (openAtStop ! 2) = Fin 95
   \<and> map_option (\<lambda>p. curRMultiple (updatePosition p (openAtStop ! 2)))
       (openPosition (projr (runBars stopFive (take 2 openAtStop) None))) = Some (Some NegInf)
   \<and> map_sum id (\<lambda>st. map_option curRMultiple (openPosition st))
       (runBars stopFive openAtStop None) = Inr (Some (Some NegInf))"
proof -
  let ?st = "projr (runBars stopFive (take 2 openAtStop) None)"
  let ?p = "the (openPosition ?st)"
  let ?bar = "openAtStop ! 2"
  have run: "runBars stopFive (take 2 openAtStop) None = Inr ?st"
    and pos: "openPosition ?st = Some ?p"
    and st: "positionStatus ?st = Position"
    and stop: "curStopPrice ?p = Some (open ?bar)"
    and fin: "is_finite (open ?bar)"
    and bar: "open ?bar = Fin 95"
    and profit: "profit (updatePosition ?p ?bar) = Fin (- 5)"
    and full: "map_sum id (\<lambda>st. map_option curRMultiple (openPosition st))
       (runBars stopFive openAtStop None) = Inr (Some (Some NegInf))"
    by (simp_all add: stopFive_def openAtStop_def scenario_simps run_simps)
  from updatePosition_unit_risk_zero[OF stop fin] profit
  have "curRMultiple (updatePosition ?p ?bar) = Some NegInf" by simp
  with pos have 3: "map_option (\<lambda>p. curRMultiple (updatePosition p ?bar)) (openPosition ?st)
                    = Some (Some NegInf)"
    by (metis option.simps(9))
  have 1: "map_sum id (\<lambda>st. (positionStatus st, map_option curStopPrice (openPosition st)))
     (runBars stopFive (take 2 openAtStop) None) = Inr (Position, Some (Some (Fin 95)))"
    by (simp add: stopFive_def openAtStop_def scenario_simps run_simps)
  from 1 3 bar full show ?thesis by simp
qed

section \<open>The analysis of no trades\<close>

text \<open>
  C4, as the code has it. For a positive starting capital and no trades, whenever
  \<open>analyze\<close> returns an analysis its final capital is the starting capital, but
  \<open>averageProfitPerTrade\<close> and \<open>returnOnAccount\<close> are \<open>NaN\<close>, not zero: both are
  computed as zero over zero, without the guard that the proportions and the average
  winning and losing trade have.
\<close>

theorem analyze_no_trades:
  assumes "0 < c" and "analyze lib now (Fin c) [] options = (options', Inr a)"
  shows "finalCapital_a a = Fin c \<and> averageProfitPerTrade_a a = NaN
         \<and> returnOnAccount_a a = NaN"
proof -
  from assms obtain xs where
    a: "a = theAnalysis lib (analyzeTimeframe [] options) (Fin c) []
              (initialAnalyzeState (Fin c) xs)"
    by (auto simp: analyze_def Let_def split: if_splits sum.splits)
  from assms(1) show ?thesis
    unfolding a by (simp add: theAnalysis_def initialAnalyzeState_def Let_def minus_jsnum_def)
qed

text \<open>
  With a capital of 1000 and no options the call succeeds; the guarded scalars are zero,
  the two unguarded ones are \<open>NaN\<close>.
\<close>

theorem analyze_no_trades_witness:
  "analyze noStatistics 0 (Fin 1000) [] None
     = (None, Inr (projr (snd (analyze noStatistics 0 (Fin 1000) [] None))))
   \<and> finalCapital_a (projr (snd (analyze noStatistics 0 (Fin 1000) [] None))) = Fin 1000
   \<and> averageProfitPerTrade_a (projr (snd (analyze noStatistics 0 (Fin 1000) [] None))) = NaN
   \<and> returnOnAccount_a (projr (snd (analyze noStatistics 0 (Fin 1000) [] None))) = NaN
   \<and> proportionProfitable_a (projr (snd (analyze noStatistics 0 (Fin 1000) [] None))) = Fin 0
   \<and> averageWinningTrade_a (projr (snd (analyze noStatistics 0 (Fin 1000) [] None))) = Fin 0"
proof -
  have run: "analyze noStatistics 0 (Fin 1000) [] None
     = (None, Inr (projr (snd (analyze noStatistics 0 (Fin 1000) [] None))))"
    and guarded:
      "proportionProfitable_a (projr (snd (analyze noStatistics 0 (Fin 1000) [] None))) = Fin 0"
      "averageWinningTrade_a (projr (snd (analyze noStatistics 0 (Fin 1000) [] None))) = Fin 0"
    by (simp_all add: analyze_simps)
  have c: "(0::real) < 1000" by simp
  from analyze_no_trades[OF c run] run guarded show ?thesis by simp
qed

section \<open>The options of the analyzer\<close>

text \<open>
  C10. \<open>analyze\<close> writes to the options it is given: when the starting capital passes the
  check at the start of the function, the start date is set, the time frame is neither
  zero nor \<open>NaN\<close> and the end date is not set, the options are left with the end date set
  to the current time and are otherwise unchanged, also when the call throws afterwards.
\<close>

theorem analyze_sets_endingDate:
  assumes "isNumber lib startingCapital" and "\<not> startingCapital \<le> Fin 0"
    and "startingDate opts = Some start"
    and "endingDate opts = None" and "truthy (analyzeTimeframe trades (Some opts))"
  shows "fst (analyze lib now startingCapital trades (Some opts))
           = Some (opts\<lparr> endingDate := Some now \<rparr>)
       \<and> fst (analyze lib now startingCapital trades (Some opts)) \<noteq> Some opts"
proof -
  have "fst (prepareRateOfReturnList now (analyzeTimeframe trades (Some opts)) (Some opts))
        = Some (opts\<lparr> endingDate := Some now \<rparr>)"
    using assms(3-5) by (simp add: prepareRateOfReturnList_def Let_def)
  then have "fst (analyze lib now startingCapital trades (Some opts))
             = Some (opts\<lparr> endingDate := Some now \<rparr>)"
    using assms(1,2) by (simp add: analyze_def Let_def split: sum.splits)
  moreover have "opts\<lparr> endingDate := Some now \<rparr> \<noteq> opts"
  proof
    assume "opts\<lparr> endingDate := Some now \<rparr> = opts"
    then have "endingDate (opts\<lparr> endingDate := Some now \<rparr>) = endingDate opts" by simp
    with assms(4) show False by simp
  qed
  ultimately show ?thesis by simp
qed

text \<open>
  Options with a start date of 0 and a time frame of 1000 come back with the end date
  5000, the time of the call.
\<close>

theorem analyze_sets_endingDate_witness:
  "isNumber noStatistics (Fin 1000) \<and> \<not> Fin 1000 \<le> Fin 0
   \<and> startingDate datedOptions = Some 0 \<and> endingDate datedOptions = None
   \<and> truthy (analyzeTimeframe [] (Some datedOptions))
   \<and> fst (analyze noStatistics 5000 (Fin 1000) [] (Some datedOptions))
     = Some \<lparr> startingDate = Some 0, endingDate = Some 5000, timeframe = Some (Fin 1000) \<rparr>
   \<and> \<not> isl (snd (analyze noStatistics 5000 (Fin 1000) [] (Some datedOptions)))"
proof -
  have h: "isNumber noStatistics (Fin 1000)" "\<not> Fin 1000 \<le> Fin 0"
    "startingDate datedOptions = Some 0"
    "endingDate datedOptions = None" "truthy (analyzeTimeframe [] (Some datedOptions))"
    by (simp_all add: datedOptions_def analyzeTimeframe_def noStatistics_def)
  have ok: "\<not> isl (snd (analyze noStatistics 5000 (Fin 1000) [] (Some datedOptions)))"
    by (simp add: analyze_simps datedOptions_def)
  from analyze_sets_endingDate[OF h, of 5000] h ok show ?thesis
    by (simp add: datedOptions_def)
qed

text \<open>
  A starting capital that the check refuses leaves the options as they are: the function
  throws before it reads them.
\<close>

lemma analyze_refused:
  "\<not> isNumber lib startingCapital \<or> startingCapital \<le> Fin 0 \<Longrightarrow>
     fst (analyze lib now startingCapital trades options) = options"
  by (auto simp: analyze_def)

section \<open>Peak and drawdown\<close>














section \<open>Fees\<close>

lemma finalizePosition_feesApplied: "feesApplied f (finalizePosition p t price reason f)"
  by (simp add: feesApplied_def rawGrowth_def finalizePosition_def Let_def split: option.splits)

lemma finalizePosition_sameTrade:
  "sameTrade (finalizePosition p t price reason f) (finalizePosition p t price reason f')"
  by (simp add: sameTrade_def finalizePosition_def Let_def split: option.splits)

lemma trades_swap:
  "(st\<lparr> completedTrades := ts \<rparr>)\<lparr> positionStatus := a \<rparr>
     = (st\<lparr> positionStatus := a \<rparr>)\<lparr> completedTrades := ts \<rparr>"
  "(st\<lparr> completedTrades := ts \<rparr>)\<lparr> exitPrice := b \<rparr>
     = (st\<lparr> exitPrice := b \<rparr>)\<lparr> completedTrades := ts \<rparr>"
  "(st\<lparr> completedTrades := ts \<rparr>)\<lparr> exitReason := c \<rparr>
     = (st\<lparr> exitReason := c \<rparr>)\<lparr> completedTrades := ts \<rparr>"
  "(st\<lparr> completedTrades := ts \<rparr>)\<lparr> positionDirection := d \<rparr>
     = (st\<lparr> positionDirection := d \<rparr>)\<lparr> completedTrades := ts \<rparr>"
  "(st\<lparr> completedTrades := ts \<rparr>)\<lparr> openPosition := e \<rparr>
     = (st\<lparr> openPosition := e \<rparr>)\<lparr> completedTrades := ts \<rparr>"
  "(st\<lparr> completedTrades := ts \<rparr>)\<lparr> lookbackBuffer := g \<rparr>
     = (st\<lparr> lookbackBuffer := g \<rparr>)\<lparr> completedTrades := ts \<rparr>"
  by simp_all

lemma enterCalls_trades:
  "enterCalls (st\<lparr> completedTrades := ts \<rparr>) cs
   = map_sum id (\<lambda>x. x\<lparr> completedTrades := ts \<rparr>) (enterCalls st cs)"
proof (induction cs arbitrary: st)
  case Nil
  then show ?case by simp
next
  case (Cons c cs)
  show ?case
  proof (cases "positionStatus st = NoneStatus")
    case True
    then show ?thesis
      using Cons.IH[of "st\<lparr> positionStatus := Enter,
                            positionDirection := (case c of Some (Some d) \<Rightarrow> d | _ \<Rightarrow> Long) \<rparr>"]
      by (simp add: enterPosition_def trades_swap)
  next
    case False
    then show ?thesis by (simp add: enterPosition_def)
  qed
qed

lemma exitCalls_trades:
  "exitCalls (st\<lparr> completedTrades := ts \<rparr>) cs
   = map_sum id (\<lambda>x. x\<lparr> completedTrades := ts \<rparr>) (exitCalls st cs)"
proof (induction cs arbitrary: st)
  case Nil
  then show ?case by simp
next
  case (Cons c cs)
  show ?case
  proof (cases "positionStatus st = Position")
    case True
    then show ?thesis
      using Cons.IH[of "st\<lparr> positionStatus := Exit, exitPrice := fst c, exitReason := snd c \<rparr>"]
      by (simp add: exitPosition_def trades_swap)
  next
    case False
    then show ?thesis by (simp add: exitPosition_def)
  qed
qed

lemma exitPosition_trades:
  "exitPosition (st\<lparr> completedTrades := ts \<rparr>) price reason
   = map_sum id (\<lambda>x. x\<lparr> completedTrades := ts \<rparr>) (exitPosition st price reason)"
  by (simp add: exitPosition_def trades_swap)

lemma exitOnCondition_trades:
  "exitOnCondition strategy (st\<lparr> completedTrades := ts \<rparr>) bar
   = map_sum id (\<lambda>x. x\<lparr> completedTrades := ts \<rparr>) (exitOnCondition strategy st bar)"
proof (cases "openPosition st")
  case None
  then show ?thesis by (simp add: exitOnCondition_def)
next
  case (Some p)
  define c1 where "c1 = (curStopPrice p \<noteq> None \<and> direction p = Long
                         \<and> low bar \<le> the (curStopPrice p))"
  define c2 where "c2 = (curStopPrice p \<noteq> None \<and> direction p \<noteq> Long
                         \<and> the (curStopPrice p) \<le> high bar)"
  define c3 where "c3 = (profitTarget p \<noteq> None \<and> direction p = Long
                         \<and> the (profitTarget p) \<le> high bar)"
  define c4 where "c4 = (profitTarget p \<noteq> None \<and> direction p \<noteq> Long
                         \<and> low bar \<le> the (profitTarget p))"
  have eq: "exitOnCondition strategy s bar =
     (if c1 then exitPosition s (Some (Math_min (the (curStopPrice p)) (open bar)))
                   (Some ''stop-loss'')
      else if c2 then exitPosition s (Some (Math_max (the (curStopPrice p)) (open bar)))
                        (Some ''stop-loss'')
      else if c3 then exitPosition s (Some (the (profitTarget p))) (Some ''profit-target'')
      else if c4 then exitPosition s (Some (the (profitTarget p))) (Some ''profit-target'')
      else (case exitRule strategy of
              None \<Rightarrow> Inr s
            | Some rule \<Rightarrow>
                exitCalls s (rule (parameters strategy) p bar (lookback_data (lookbackBuffer s)))))"
    if "openPosition s = Some p" for s
    using that unfolding exitOnCondition_def c1_def c2_def c3_def c4_def by simp
  have l: "openPosition (st\<lparr> completedTrades := ts \<rparr>) = Some p"
    using Some by simp
  show ?thesis
    unfolding eq[OF Some] eq[OF l]
    by (cases "exitRule strategy")
       (simp_all add: exitPosition_trades exitCalls_trades)
qed

lemma caseNone_trades:
  "caseNone strategy (st\<lparr> completedTrades := ts \<rparr>) bar
   = map_sum id (\<lambda>x. x\<lparr> completedTrades := ts \<rparr>) (caseNone strategy st bar)"
  by (simp add: caseNone_def enterCalls_trades)

lemma caseEnter_trades:
  "caseEnter strategy options (st\<lparr> completedTrades := ts \<rparr>) bar
   = map_sum id (\<lambda>x. x\<lparr> completedTrades := ts \<rparr>) (caseEnter strategy options st bar)"
  by (simp add: caseEnter_def Let_def trades_swap exitOnCondition_trades split: sum.splits)

lemma casePosition_trades:
  "casePosition strategy options (st\<lparr> completedTrades := ts \<rparr>) bar
   = map_sum id (\<lambda>x. x\<lparr> completedTrades := ts \<rparr>) (casePosition strategy options st bar)"
  by (simp add: casePosition_def trades_swap exitOnCondition_trades
           split: sum.splits option.splits)

lemma sameRun_trades: "sameRun a b \<Longrightarrow> a = b\<lparr> completedTrades := completedTrades a \<rparr>"
proof -
  assume "sameRun a b"
  then have "a\<lparr> completedTrades := [] \<rparr> = b\<lparr> completedTrades := [] \<rparr>"
    by (simp add: sameRun_def)
  then have "(a\<lparr> completedTrades := [] \<rparr>)\<lparr> completedTrades := completedTrades a \<rparr>
             = (b\<lparr> completedTrades := [] \<rparr>)\<lparr> completedTrades := completedTrades a \<rparr>"
    by simp
  then show ?thesis by simp
qed

lemma commuting_sameRun:
  assumes comm: "\<And>st ts. F (st\<lparr> completedTrades := ts \<rparr>)
                   = map_sum id (\<lambda>x. x\<lparr> completedTrades := ts \<rparr>) (F st)"
    and rel: "sameRun a b"
  shows "rel_sum (=) sameRun (F a) (F b)"
proof (cases "F b")
  case (Inl e)
  from sameRun_trades[OF rel] have "F a = F (b\<lparr> completedTrades := completedTrades a \<rparr>)"
    by simp
  with Inl show ?thesis by (simp add: comm)
next
  case (Inr x)
  from sameRun_trades[OF rel] have "F a = F (b\<lparr> completedTrades := completedTrades a \<rparr>)"
    by simp
  with Inr have a: "F a = Inr (x\<lparr> completedTrades := completedTrades a \<rparr>)"
    by (simp add: comm)
  have "F b = F (b\<lparr> completedTrades := completedTrades b \<rparr>)" by simp
  also have "\<dots> = map_sum id (\<lambda>x. x\<lparr> completedTrades := completedTrades b \<rparr>) (F b)"
    by (rule comm)
  finally have "x = x\<lparr> completedTrades := completedTrades b \<rparr>"
    using Inr by simp
  then have "completedTrades x = completedTrades (x\<lparr> completedTrades := completedTrades b \<rparr>)"
    by simp
  then have "completedTrades x = completedTrades b" by simp
  with rel have "sameRun (x\<lparr> completedTrades := completedTrades a \<rparr>) x"
    by (simp add: sameRun_def)
  with a Inr show ?thesis by simp
qed

lemma sameRun_update:
  "sameRun (b\<lparr> completedTrades := ts \<rparr>) b = list_all2 sameTrade ts (completedTrades b)"
  by (simp add: sameRun_def)

lemma sameRun_cases:
  assumes "sameRun a b"
  obtains ts where "a = b\<lparr> completedTrades := ts \<rparr>"
    and "list_all2 sameTrade ts (completedTrades b)"
  using sameRun_trades[OF assms] assms by (metis sameRun_update)

lemma caseExit_sameRun:
  assumes "sameRun a b"
  shows "rel_sum (=) sameRun (caseExit f a bar) (caseExit f' b bar)"
proof -
  from assms obtain ts where a: "a = b\<lparr> completedTrades := ts \<rparr>"
    and l: "list_all2 sameTrade ts (completedTrades b)"
    by (rule sameRun_cases)
  show ?thesis
  proof (cases "openPosition b")
    case None
    then show ?thesis unfolding a by (simp add: caseExit_def)
  next
    case (Some p)
    then show ?thesis
      unfolding a using l
      by (simp add: caseExit_def closePosition_def Let_def sameRun_def
            finalizePosition_sameTrade list_all2_appendI)
  qed
qed

lemma backtestBar_sameRun:
  assumes "sameRun a b"
  shows "rel_sum (=) sameRun (backtestBar s opts f n a bar) (backtestBar s opts f' n b bar)"
proof -
  let ?b1 = "b\<lparr> lookbackBuffer := cb_push (lookbackBuffer b) bar \<rparr>"
  from assms obtain ts where a: "a = b\<lparr> completedTrades := ts \<rparr>"
    and l: "list_all2 sameTrade ts (completedTrades b)"
    by (rule sameRun_cases)
  have a1: "a\<lparr> lookbackBuffer := cb_push (lookbackBuffer a) bar \<rparr>
            = ?b1\<lparr> completedTrades := ts \<rparr>"
    unfolding a by simp
  from l have rel1: "sameRun (?b1\<lparr> completedTrades := ts \<rparr>) ?b1"
    by (simp add: sameRun_update)
  have bar: "backtestBar s opts g n x bar =
     (let st1 = x\<lparr> lookbackBuffer := cb_push (lookbackBuffer x) bar \<rparr>
      in if cb_length (lookbackBuffer st1) < n then Inr st1
         else (case positionStatus st1 of
                 NoneStatus \<Rightarrow> caseNone s st1 bar
               | Enter \<Rightarrow> caseEnter s opts st1 bar
               | Position \<Rightarrow> casePosition s opts st1 bar
               | Exit \<Rightarrow> caseExit g st1 bar))" for g x
    by (simp add: backtestBar_def)
  show ?thesis
  proof (cases "cb_length (lookbackBuffer ?b1) < n")
    case True
    with rel1 show ?thesis
      unfolding bar Let_def a1 by simp
  next
    case False
    show ?thesis
    proof (cases "positionStatus b")
      case NoneStatus
      from commuting_sameRun[of "\<lambda>st. caseNone s st bar", OF caseNone_trades rel1]
      show ?thesis unfolding bar Let_def a1 using False NoneStatus by simp
    next
      case Enter
      from commuting_sameRun[of "\<lambda>st. caseEnter s opts st bar", OF caseEnter_trades rel1]
      show ?thesis unfolding bar Let_def a1 using False Enter by simp
    next
      case Position
      from commuting_sameRun[of "\<lambda>st. casePosition s opts st bar", OF casePosition_trades rel1]
      show ?thesis unfolding bar Let_def a1 using False Position by simp
    next
      case Exit
      from caseExit_sameRun[OF rel1, of f bar f']
      show ?thesis unfolding bar Let_def a1 using False Exit by simp
    qed
  qed
qed

lemma backtestLoop_sameRun:
  "sameRun a b \<Longrightarrow>
     rel_sum (=) sameRun (backtestLoop s opts f n a bars) (backtestLoop s opts f' n b bars)"
proof (induction bars arbitrary: a b)
  case Nil
  then show ?case by simp
next
  case (Cons bar bars)
  from backtestBar_sameRun[OF Cons.prems, of s opts f n bar f']
  show ?case
    by (cases "backtestBar s opts f n a bar"; cases "backtestBar s opts f' n b bar")
       (simp_all add: Cons.IH)
qed

lemma commuting_frame:
  assumes comm: "\<And>st ts. F (st\<lparr> completedTrades := ts \<rparr>)
                   = map_sum id (\<lambda>x. x\<lparr> completedTrades := ts \<rparr>) (F st)"
    and res: "F st = Inr st'"
  shows "completedTrades st' = completedTrades st"
proof -
  have "F st = F (st\<lparr> completedTrades := completedTrades st \<rparr>)" by simp
  also have "\<dots> = map_sum id (\<lambda>x. x\<lparr> completedTrades := completedTrades st \<rparr>) (F st)"
    by (rule comm)
  finally have "st' = st'\<lparr> completedTrades := completedTrades st \<rparr>"
    using res by simp
  then have "completedTrades st' = completedTrades (st'\<lparr> completedTrades := completedTrades st \<rparr>)"
    by simp
  then show ?thesis by simp
qed

lemma backtestBar_feesApplied:
  assumes "backtestBar s opts f n st bar = Inr st'"
    and "list_all (feesApplied f) (completedTrades st)"
  shows "list_all (feesApplied f) (completedTrades st')"
proof -
  let ?st1 = "st\<lparr> lookbackBuffer := cb_push (lookbackBuffer st) bar \<rparr>"
  have ct1: "completedTrades ?st1 = completedTrades st" by simp
  show ?thesis
  proof (cases "cb_length (lookbackBuffer ?st1) < n")
    case True
    with assms show ?thesis by (auto simp: backtestBar_def Let_def)
  next
    case False
    with assms(1) have step:
      "(case positionStatus ?st1 of
          NoneStatus \<Rightarrow> caseNone s ?st1 bar
        | Enter \<Rightarrow> caseEnter s opts ?st1 bar
        | Position \<Rightarrow> casePosition s opts ?st1 bar
        | Exit \<Rightarrow> caseExit f ?st1 bar) = Inr st'"
      by (simp add: backtestBar_def Let_def)
    show ?thesis
    proof (cases "positionStatus ?st1")
      case NoneStatus
      with step have "caseNone s ?st1 bar = Inr st'" by simp
      from commuting_frame[of "\<lambda>st. caseNone s st bar", OF caseNone_trades this] assms(2)
      show ?thesis by simp
    next
      case Enter
      with step have "caseEnter s opts ?st1 bar = Inr st'" by simp
      from commuting_frame[of "\<lambda>st. caseEnter s opts st bar", OF caseEnter_trades this] assms(2)
      show ?thesis by simp
    next
      case Position
      with step have "casePosition s opts ?st1 bar = Inr st'" by simp
      from commuting_frame[of "\<lambda>st. casePosition s opts st bar", OF casePosition_trades this]
        assms(2)
      show ?thesis by simp
    next
      case Exit
      with step have "caseExit f ?st1 bar = Inr st'" by simp
      with assms(2) show ?thesis
        by (auto simp: caseExit_def closePosition_def Let_def finalizePosition_feesApplied
                 split: if_splits)
    qed
  qed
qed

lemma backtestLoop_feesApplied:
  "backtestLoop s opts f n st bars = Inr st' \<Longrightarrow> list_all (feesApplied f) (completedTrades st)
     \<Longrightarrow> list_all (feesApplied f) (completedTrades st')"
proof (induction bars arbitrary: st)
  case Nil
  then show ?case by simp
next
  case (Cons bar bars)
  then show ?case
    by (auto split: sum.splits dest: backtestBar_feesApplied)
qed

lemma backtest_feesApplied:
  assumes "backtest s inputSeries options = Inr trades"
  shows "list_all (feesApplied (theFees s)) trades"
proof -
  from assms obtain st where
    run: "runBars s inputSeries options = Inr st"
    and trades: "trades = (case openPosition st of
                   None \<Rightarrow> completedTrades st
                 | Some p \<Rightarrow> completedTrades st
                     @ [finalizePosition p
                          (time (last (theIndicators s inputSeries)) + theTimeframe inputSeries)
                          (close (last (theIndicators s inputSeries))) ''finalize'' (theFees s)])"
    by (auto simp: backtest_def Let_def split: if_splits sum.splits option.splits)
  have "list_all (feesApplied (theFees s)) (completedTrades (initialState (theLookbackPeriod s)))"
    by (simp add: initialState_def)
  from backtestLoop_feesApplied[OF run[unfolded runBars_def] this]
  show ?thesis
    unfolding trades by (simp add: finalizePosition_feesApplied split: option.splits)
qed

lemma fees_irrelevant:
  "exitOnCondition (s\<lparr> fees := x \<rparr>) st bar = exitOnCondition s st bar"
  "caseNone (s\<lparr> fees := x \<rparr>) st bar = caseNone s st bar"
  "enterStopLoss (s\<lparr> fees := x \<rparr>) p bar lb = enterStopLoss s p bar lb"
  "enterProfitTarget (s\<lparr> fees := x \<rparr>) p bar lb = enterProfitTarget s p bar lb"
  "enterTrailingStop (s\<lparr> fees := x \<rparr>) opts p bar lb = enterTrailingStop s opts p bar lb"
  "revaluateTrailingStop (s\<lparr> fees := x \<rparr>) opts p bar lb = revaluateTrailingStop s opts p bar lb"
  "theLookbackPeriod (s\<lparr> fees := x \<rparr>) = theLookbackPeriod s"
  "theIndicators (s\<lparr> fees := x \<rparr>) inputSeries = theIndicators s inputSeries"
  by (simp_all add: exitOnCondition_def caseNone_def enterStopLoss_def enterProfitTarget_def
        enterTrailingStop_def revaluateTrailingStop_def theLookbackPeriod_def theIndicators_def
      cong: if_cong option.case_cong)

lemma backtestBar_fees_irrelevant:
  "backtestBar (s\<lparr> fees := x \<rparr>) opts f n st bar = backtestBar s opts f n st bar"
  by (simp add: backtestBar_def caseEnter_def casePosition_def fees_irrelevant
        cong: if_cong option.case_cong sum.case_cong PositionStatus.case_cong)

lemma backtestLoop_fees_irrelevant:
  "backtestLoop (s\<lparr> fees := x \<rparr>) opts f n st bars = backtestLoop s opts f n st bars"
  by (induction bars arbitrary: st)
     (simp_all add: backtestBar_fees_irrelevant cong: sum.case_cong)

lemma sameRun_refl: "sameRun st st"
  by (simp add: sameRun_def list_all2_same sameTrade_def)

lemma backtest_sameTrade:
  "rel_sum (=) (list_all2 sameTrade)
     (backtest (s\<lparr> fees := x \<rparr>) inputSeries options)
     (backtest (s\<lparr> fees := y \<rparr>) inputSeries options)"
proof -
  let ?n = "theLookbackPeriod s"
  let ?run = "\<lambda>f. backtestLoop s (theOptions options) f ?n (initialState ?n)
                     (theIndicators s inputSeries)"
  have runs: "runBars (s\<lparr> fees := z \<rparr>) inputSeries options = ?run (theFees (s\<lparr> fees := z \<rparr>))"
    for z
    by (simp add: runBars_def fees_irrelevant backtestLoop_fees_irrelevant)
  have rel: "rel_sum (=) sameRun (?run (theFees (s\<lparr> fees := x \<rparr>)))
                                 (?run (theFees (s\<lparr> fees := y \<rparr>)))"
    by (rule backtestLoop_sameRun) (rule sameRun_refl)
  show ?thesis
  proof (cases "?run (theFees (s\<lparr> fees := y \<rparr>))")
    case (Inl e)
    with rel show ?thesis
      by (cases "?run (theFees (s\<lparr> fees := x \<rparr>))")
         (simp_all add: backtest_def runs fees_irrelevant)
  next
    case (Inr b)
    with rel obtain a where a: "?run (theFees (s\<lparr> fees := x \<rparr>)) = Inr a" and ab: "sameRun a b"
      by (cases "?run (theFees (s\<lparr> fees := x \<rparr>))") simp_all
    from ab obtain ts where a': "a = b\<lparr> completedTrades := ts \<rparr>"
      and l: "list_all2 sameTrade ts (completedTrades b)"
      by (rule sameRun_cases)
    show ?thesis
      using l
      by (cases "openPosition b")
         (simp_all add: backtest_def runs fees_irrelevant a Inr a' Let_def
            finalizePosition_sameTrade list_all2_appendI)
  qed
qed


lemma sameTrade_rawGrowth: "sameTrade a b \<Longrightarrow> rawGrowth a = rawGrowth b"
proof -
  assume "sameTrade a b"
  then have eq: "a\<lparr> growth_t := growth_t b, rateOfReturnSeries_t := rateOfReturnSeries_t b \<rparr> = b"
    by (simp add: sameTrade_def)
  have "rawGrowth a
        = rawGrowth (a\<lparr> growth_t := growth_t b, rateOfReturnSeries_t := rateOfReturnSeries_t b \<rparr>)"
    by (simp add: rawGrowth_def)
  with eq show ?thesis by simp
qed

lemma feesApplied_zero:
  assumes "feesApplied (Fin 0) t" and "is_finite (growth_t t)"
  shows "rawGrowth t = growth_t t"
  using assms by (cases "rawGrowth t") (simp_all add: feesApplied_def minus_jsnum_def)

lemma theFees_Some: "theFees (s\<lparr> fees := Some (Fin f) \<rparr>) = Fin f"
  by (simp add: theFees_def)

lemma theFees_None: "theFees (s\<lparr> fees := None \<rparr>) = Fin 0"
  by (simp add: theFees_def)

lemma fee_growths:
  assumes "list_all2 sameTrade tsF ts0"
    and "list_all (feesApplied (Fin f)) tsF" and "list_all (feesApplied (Fin 0)) ts0"
  shows "list_all2 (\<lambda>tF t0. is_finite (growth_t t0) \<longrightarrow>
                      growth_t t0 = rawGrowth t0
                      \<and> growth_t tF = growth_t t0 - growth_t t0 * Fin f) tsF ts0"
  using assms
proof (induction tsF ts0 rule: list_all2_induct)
  case Nil
  then show ?case by simp
next
  case (Cons tF tsF t0 ts0)
  from Cons.prems have fF: "feesApplied (Fin f) tF" and f0: "feesApplied (Fin 0) t0"
    by simp_all
  have "growth_t t0 = rawGrowth t0 \<and> growth_t tF = growth_t t0 - growth_t t0 * Fin f"
    if fin: "is_finite (growth_t t0)"
  proof -
    from feesApplied_zero[OF f0 fin] have raw0: "rawGrowth t0 = growth_t t0" .
    with sameTrade_rawGrowth[OF Cons.hyps(1)] have "rawGrowth tF = growth_t t0" by simp
    with fF raw0 show ?thesis by (simp add: feesApplied_def)
  qed
  with Cons show ?case by simp
qed

text \<open>
  C5, as the code has it. Fees are applied once, when a position is closed: the growth
  recorded for a trade is \<open>g - g * fees\<close>, where \<open>g\<close> is its growth before fees, from the
  direction and the entry and exit prices. The same run with the fee \<open>f\<close> and without fees
  closes the same trades, which differ in the growth and the rates of return only. Where
  the growth \<open>g0\<close> that the run without fees records is a finite number it is the growth
  before fees, and the run with the fee records \<open>g0 - g0 * f\<close>. The code does not
  multiply by \<open>1 - f\<close>: that product is another expression, which has the same value on
  finite numbers in exact arithmetic only.
\<close>

theorem fees_applied_at_close:
  assumes "backtest (strategy\<lparr> fees := None \<rparr>) inputSeries options = Inr trades0"
  shows "\<exists>tradesF.
           backtest (strategy\<lparr> fees := Some (Fin f) \<rparr>) inputSeries options = Inr tradesF
           \<and> list_all2 sameTrade tradesF trades0
           \<and> list_all (\<lambda>t. growth_t t = rawGrowth t - rawGrowth t * Fin f) tradesF
           \<and> list_all (\<lambda>t. growth_t t = rawGrowth t - rawGrowth t * Fin 0) trades0
           \<and> list_all2 (\<lambda>tF t0. is_finite (growth_t t0) \<longrightarrow>
                            growth_t t0 = rawGrowth t0
                            \<and> growth_t tF = growth_t t0 - growth_t t0 * Fin f)
               tradesF trades0"
proof -
  from backtest_sameTrade[where s = strategy and x = "Some (Fin f)" and y = None
         and inputSeries = inputSeries and options = options] assms(1)
  obtain tradesF where
    run: "backtest (strategy\<lparr> fees := Some (Fin f) \<rparr>) inputSeries options = Inr tradesF"
    and same: "list_all2 sameTrade tradesF trades0"
    by (cases "backtest (strategy\<lparr> fees := Some (Fin f) \<rparr>) inputSeries options") simp_all
  from backtest_feesApplied[OF run] have f: "list_all (feesApplied (Fin f)) tradesF"
    by (simp add: theFees_Some)
  from backtest_feesApplied[OF assms(1)] have z: "list_all (feesApplied (Fin 0)) trades0"
    by (simp add: theFees_None)
  from f have f': "list_all (\<lambda>t. growth_t t = rawGrowth t - rawGrowth t * Fin f) tradesF"
    by (simp add: feesApplied_def[abs_def])
  from z have z': "list_all (\<lambda>t. growth_t t = rawGrowth t - rawGrowth t * Fin 0) trades0"
    by (simp add: feesApplied_def[abs_def])
  from fee_growths[OF same f z] run same f' z' show ?thesis by blast
qed

text \<open>
  Fees of a quarter. The first trade is closed by the exit rule in the case \<open>Exit\<close>, from
  100 to 125, the second at the end of the series, from 200 to 300: the growths 5/4 and
  3/2 without fees become 15/16 and 9/8.
\<close>

theorem fees_applied_at_close_witness:
  "map_sum id (map (\<lambda>t. (entryPrice_t t, exitPrice_t t, exitReason_t t, growth_t t)))
     (backtest (feeQuarterExit\<lparr> fees := None \<rparr>) feeBars None)
     = Inr [(Fin 100, Fin 125, ''exit-rule'', Fin (5 / 4)),
            (Fin 200, Fin 300, ''finalize'', Fin (3 / 2))]
   \<and> map_sum id (map (\<lambda>t. (entryPrice_t t, exitPrice_t t, exitReason_t t)))
       (backtest (feeQuarterExit\<lparr> fees := Some (Fin (1 / 4)) \<rparr>) feeBars None)
     = Inr [(Fin 100, Fin 125, ''exit-rule''), (Fin 200, Fin 300, ''finalize'')]
   \<and> map_sum id (map growth_t)
       (backtest (feeQuarterExit\<lparr> fees := Some (Fin (1 / 4)) \<rparr>) feeBars None)
     = Inr [Fin (5 / 4) - Fin (5 / 4) * Fin (1 / 4), Fin (3 / 2) - Fin (3 / 2) * Fin (1 / 4)]
   \<and> Fin (5 / 4) - Fin (5 / 4) * Fin (1 / 4) = Fin (15 / 16)
   \<and> Fin (3 / 2) - Fin (3 / 2) * Fin (1 / 4) = Fin (9 / 8)"
proof -
  let ?t0 = "projr (backtest (feeQuarterExit\<lparr> fees := None \<rparr>) feeBars None)"
  have run0: "backtest (feeQuarterExit\<lparr> fees := None \<rparr>) feeBars None = Inr ?t0"
    and g0: "map growth_t ?t0 = [Fin (5 / 4), Fin (3 / 2)]"
    by (simp_all add: feeQuarterExit_def feeBars_def scenario_simps run_simps)
  from fees_applied_at_close[OF run0, of "1 / 4"] obtain tradesF where
    runF: "backtest (feeQuarterExit\<lparr> fees := Some (Fin (1 / 4)) \<rparr>) feeBars None = Inr tradesF"
    and rel: "list_all2 (\<lambda>tF t0. is_finite (growth_t t0) \<longrightarrow>
                            growth_t t0 = rawGrowth t0
                            \<and> growth_t tF = growth_t t0 - growth_t t0 * Fin (1 / 4))
               tradesF ?t0"
    by blast
  from g0 obtain a b where t0: "?t0 = [a, b]"
    and ab: "growth_t a = Fin (5 / 4)" "growth_t b = Fin (3 / 2)"
    by (auto simp: map_eq_Cons_conv)
  from rel[unfolded t0] ab
  have "map growth_t tradesF
        = [Fin (5 / 4) - Fin (5 / 4) * Fin (1 / 4), Fin (3 / 2) - Fin (3 / 2) * Fin (1 / 4)]"
    by (auto simp: list_all2_Cons2)
  with runF have 3: "map_sum id (map growth_t)
       (backtest (feeQuarterExit\<lparr> fees := Some (Fin (1 / 4)) \<rparr>) feeBars None)
     = Inr [Fin (5 / 4) - Fin (5 / 4) * Fin (1 / 4), Fin (3 / 2) - Fin (3 / 2) * Fin (1 / 4)]"
    by simp
  have 1: "map_sum id (map (\<lambda>t. (entryPrice_t t, exitPrice_t t, exitReason_t t, growth_t t)))
     (backtest (feeQuarterExit\<lparr> fees := None \<rparr>) feeBars None)
     = Inr [(Fin 100, Fin 125, ''exit-rule'', Fin (5 / 4)),
            (Fin 200, Fin 300, ''finalize'', Fin (3 / 2))]"
    and 2: "map_sum id (map (\<lambda>t. (entryPrice_t t, exitPrice_t t, exitReason_t t)))
       (backtest (feeQuarterExit\<lparr> fees := Some (Fin (1 / 4)) \<rparr>) feeBars None)
     = Inr [(Fin 100, Fin 125, ''exit-rule''), (Fin 200, Fin 300, ''finalize'')]"
    by (simp_all add: feeQuarterExit_def feeBars_def scenario_simps run_simps)
  have 4: "Fin (5 / 4) - Fin (5 / 4) * Fin (1 / 4) = Fin (15 / 16)"
    and 5: "Fin (3 / 2) - Fin (3 / 2) * Fin (1 / 4) = Fin (9 / 8)"
    by (simp_all add: minus_jsnum_def)
  from 1 2 3 4 5 show ?thesis by (intro conjI)
qed

text \<open>
  C5, as the specification states it, fails. With fees of a quarter and an entry at the
  price 0 the growth before fees is \<open>Infinity\<close>, and so is that growth times \<open>1 - 1/4\<close>; the
  growth recorded is \<open>Infinity - Infinity * 1/4\<close>, which is \<open>NaN\<close>.
\<close>

theorem fees_applied_at_close_counterexample:
  "map_sum id (map (\<lambda>t. (entryPrice_t t, exitPrice_t t, rawGrowth t, growth_t t)))
     (backtest feeQuarter zeroEntryBars None)
     = Inr [(Fin 0, Fin 120, PosInf, NaN)]
   \<and> PosInf * (Fin 1 - Fin (1 / 4)) = PosInf
   \<and> map_sum id (map growth_t) (backtest feeQuarter zeroEntryBars None)
     \<noteq> map_sum id (map (\<lambda>t. rawGrowth t * (Fin 1 - Fin (1 / 4))))
         (backtest feeQuarter zeroEntryBars None)"
  by (simp add: feeQuarter_def zeroEntryBars_def rawGrowth_def scenario_simps run_simps)

end
